theory Spec2Isabelle
  imports Main
begin

section \<open>Review states, votes and gates\<close>

text \<open>
  Modelled from the spec: the vote state enumeration of class Vote and the extra
  gate state PREPARING of class Gate (internals/review_models is not among the
  sources). The source stores a state as an integer and compares states only for
  equality, so the named states are distinct constructors; Other_state n stands
  for an integer that is none of the named states.
\<close>

datatype state =
    NO_RESPONSE
  | NEEDS_WORK
  | REVIEW_REQUESTED
  | REVIEW_STARTED
  | INTERNAL_REVIEW
  | DENIED
  | APPROVED
  | NA
  | NA_REQUESTED
  | NA_SELF
  | NA_VERIFIED
  | PREPARING
  | Other_state int

text \<open>
  Modelled from the spec: the gate type identifiers of core_enums (not among the
  sources), the keys of the gate catalog; Other_gate_type n stands for an integer
  that is none of them.
\<close>

datatype gate_type =
    GATE_API_PROTOTYPE
  | GATE_API_ORIGIN_TRIAL
  | GATE_API_EXTEND_ORIGIN_TRIAL
  | GATE_API_SHIP
  | GATE_API_PLAN
  | GATE_PRIVACY_ORIGIN_TRIAL
  | GATE_PRIVACY_SHIP
  | GATE_SECURITY_ORIGIN_TRIAL
  | GATE_SECURITY_SHIP
  | GATE_ENTERPRISE_SHIP
  | GATE_ENTERPRISE_PLAN
  | GATE_DEBUGGABILITY_ORIGIN_TRIAL
  | GATE_DEBUGGABILITY_SHIP
  | GATE_DEBUGGABILITY_PLAN
  | GATE_TESTING_SHIP
  | GATE_TESTING_PLAN
  | Other_gate_type int

text \<open>A timestamp (datetime) is a point of a linear order: microseconds as an integer.\<close>

type_synonym datetime = int

text \<open>
  A Vote row as set_vote builds it: Vote(feature_id, gate_id, gate_type, state,
  set_on, set_by). gate_id and gate_type are None when set_vote was given None.
\<close>

record vote =
  feature_id :: int
  gate_id :: "nat option"
  gate_type :: "gate_type option"
  state :: state
  set_on :: datetime
  set_by :: string

definition ONE_LGTM :: string where
  "ONE_LGTM = ''One LGTM''"

definition THREE_LGTM :: string where
  "THREE_LGTM = ''Three LGTMs''"

section \<open>The vote aggregator\<close>

text \<open>
  sorted(votes, reverse=True, key=lambda v: v.set_on): Python's sort is stable, also
  with reverse=True, so votes come out by descending set_on and votes of equal set_on
  keep their order in the input.
\<close>

fun insert_desc :: "vote \<Rightarrow> vote list \<Rightarrow> vote list" where
  "insert_desc v [] = [v]"
| "insert_desc v (w # ws) =
     (if vote.set_on w \<le> vote.set_on v then v # w # ws else w # insert_desc v ws)"

definition sorted_desc :: "vote list \<Rightarrow> vote list" where
  "sorted_desc votes = foldr insert_desc votes []"

text \<open>The states a vote of the loop at the end of the function is tested against.\<close>

definition rerequest_states :: "state set" where
  "rerequest_states =
     {NEEDS_WORK, REVIEW_STARTED, REVIEW_REQUESTED, DENIED, INTERNAL_REVIEW, NA_REQUESTED}"

text \<open>The for loop over the sorted votes: the first vote whose state is in the tuple returns.\<close>

fun first_rerequest :: "vote list \<Rightarrow> state option" where
  "first_rerequest [] = None"
| "first_rerequest (v # vs) =
     (if vote.state v \<in> rerequest_states then Some (vote.state v) else first_rerequest vs)"

text \<open>collections.Counter(v.state for v in votes)[s]: how many votes have state s.\<close>

definition counts :: "vote list \<Rightarrow> state \<Rightarrow> nat" where
  "counts votes s = count_list (map vote.state votes) s"

definition calc_gate_state :: "vote list \<Rightarrow> string \<Rightarrow> state" where
  "calc_gate_state votes0 rule =
     (let votes = filter (\<lambda>v. vote.state v \<noteq> NO_RESPONSE) votes0;
          num_lgtms = counts votes APPROVED + counts votes NA
      in if counts votes NA_SELF = 1 \<and> rule = ONE_LGTM \<and> length votes = 1 then NA_SELF
         else if counts votes NA_SELF = 1 \<and> rule = ONE_LGTM \<and> counts votes NA_VERIFIED \<ge> 1
           then NA_VERIFIED
         else if (rule = ONE_LGTM \<and> num_lgtms \<ge> 1) \<or> (rule = THREE_LGTM \<and> num_lgtms \<ge> 3)
           then (if counts votes NA > 0 then NA else APPROVED)
         else (case first_rerequest (sorted_desc votes) of
                 Some s \<Rightarrow> s
               | None \<Rightarrow>
                   if rule = THREE_LGTM \<and> num_lgtms \<ge> 1 then REVIEW_REQUESTED
                   else PREPARING))"

text \<open>
  Vocabulary of the specification, in terms of the code's local variables: the votes
  left after the NO_RESPONSE votes are discarded, the number of APPROVED and NA votes
  (lgtmCount, the code's num_lgtms), the test under which one of the two returns of the
  NA_SELF block is taken, and the quorum test of the rule.
\<close>

definition counted :: "vote list \<Rightarrow> vote list" where
  "counted votes = filter (\<lambda>v. vote.state v \<noteq> NO_RESPONSE) votes"

definition lgtm_count :: "vote list \<Rightarrow> nat" where
  "lgtm_count votes = counts (counted votes) APPROVED + counts (counted votes) NA"

definition na_self_case :: "vote list \<Rightarrow> string \<Rightarrow> bool" where
  "na_self_case votes rule \<longleftrightarrow>
     counts (counted votes) NA_SELF = 1 \<and> rule = ONE_LGTM \<and>
     (length (counted votes) = 1 \<or> counts (counted votes) NA_VERIFIED \<ge> 1)"

definition quorum_met :: "vote list \<Rightarrow> string \<Rightarrow> bool" where
  "quorum_met votes rule \<longleftrightarrow>
     (rule = ONE_LGTM \<and> lgtm_count votes \<ge> 1) \<or>
     (rule = THREE_LGTM \<and> lgtm_count votes \<ge> 3)"

text \<open>A vote of a given state and timestamp, for the scenarios of the specification.\<close>

definition vote_at :: "state \<Rightarrow> datetime \<Rightarrow> string \<Rightarrow> vote" where
  "vote_at s t who =
     \<lparr>feature_id = 1, gate_id = Some 1, gate_type = Some GATE_API_SHIP,
      state = s, set_on = t, set_by = who\<rparr>"

section \<open>The gate catalog\<close>

text \<open>
  The text of an OWNERS document, once decoded, is a Python str whose strip() looks at
  Unicode code points beyond a byte; so such a text, and with it an email address of an
  approver list, is a list of code points. text_of is the str of an ASCII literal.
\<close>

type_synonym ustring = "nat list"

definition text_of :: "string \<Rightarrow> ustring" where
  "text_of s = map of_char s"

text \<open>afd.approvers is either a string (a URL or the IN_NDB marker) or a list of emails.\<close>

datatype approvers = Str string | Emails "ustring list"

definition APPROVERS_CACHE_KEY :: string where
  "APPROVERS_CACHE_KEY = ''approvers''"

definition CACHE_EXPIRATION :: int where
  "CACHE_EXPIRATION = 60 * 60"

definition IN_NDB :: string where
  "IN_NDB = ''stored in ndb''"

definition API_OWNERS_URL :: string where
  "API_OWNERS_URL =
     ''https://chromium.googlesource.com/chromium/src/+/'' @
     ''main/third_party/blink/API_OWNERS?format=TEXT''"

definition PRIVACY_APPROVERS :: approvers where
  "PRIVACY_APPROVERS = Str IN_NDB"

definition SECURITY_APPROVERS :: approvers where
  "SECURITY_APPROVERS = Str IN_NDB"

definition ENTERPRISE_APPROVERS :: approvers where
  "ENTERPRISE_APPROVERS = Emails (map text_of
     [''mhoste@google.com'',
      ''angelaweber@google.com'',
      ''davidayad@google.com'',
      ''omole@google.com'',
      ''nsamarakkody@google.com'',
      ''pastarmovj@google.com'',
      ''aaudi@google.com'',
      ''kimreardon@google.com'',
      ''elmirakalali@google.com''])"

definition DEBUGGABILITY_APPROVERS :: approvers where
  "DEBUGGABILITY_APPROVERS = Str IN_NDB"

definition TESTING_APPROVERS :: approvers where
  "TESTING_APPROVERS = Emails (map text_of
     [''sadapala@google.com'',
      ''santhoshkumarm@google.com'',
      ''maguschen@google.com'',
      ''karala@google.com'',
      ''aichein@google.com''])"

definition DEFAULT_SLO_LIMIT :: int where
  "DEFAULT_SLO_LIMIT = 5"

definition DEFAULT_SLO_RESOLVE_LIMIT :: int where
  "DEFAULT_SLO_RESOLVE_LIMIT = 10"

record gate_info =
  name :: string
  description :: string
  gate_type :: gate_type
  rule :: string
  approvers :: approvers
  team_name :: string
  escalation_email :: "string option"
  slo_initial_response :: int
  slo_resolve :: int

text \<open>The constructor call GateInfo(...) with the defaults of the dataclass.\<close>

definition GateInfo ::
  "string \<Rightarrow> string \<Rightarrow> gate_type \<Rightarrow> string \<Rightarrow> approvers \<Rightarrow> string \<Rightarrow> string option \<Rightarrow> int \<Rightarrow>
   gate_info" where
  "GateInfo n d t r a team esc slo1 =
     \<lparr>name = n, description = d, gate_type = t, rule = r, approvers = a, team_name = team,
      escalation_email = esc, slo_initial_response = slo1,
      slo_resolve = DEFAULT_SLO_RESOLVE_LIMIT\<rparr>"

definition PrototypeApproval :: gate_info where
  "PrototypeApproval = GateInfo
     ''Intent to Prototype''
     ''Not normally used.  If a review is requested, API Owners can approve.''
     GATE_API_PROTOTYPE ONE_LGTM (Str API_OWNERS_URL) ''API Owners'' None DEFAULT_SLO_LIMIT"

definition ExperimentApproval :: gate_info where
  "ExperimentApproval = GateInfo
     ''Intent to Experiment''
     ''One API Owner must approve your intent''
     GATE_API_ORIGIN_TRIAL ONE_LGTM (Str API_OWNERS_URL) ''API Owners'' None DEFAULT_SLO_LIMIT"

definition ExtendExperimentApproval :: gate_info where
  "ExtendExperimentApproval = GateInfo
     ''Intent to Extend Experiment''
     ''One API Owner must approve your intent''
     GATE_API_EXTEND_ORIGIN_TRIAL ONE_LGTM (Str API_OWNERS_URL) ''API Owners'' None
     DEFAULT_SLO_LIMIT"

definition ShipApproval :: gate_info where
  "ShipApproval = GateInfo
     ''Intent to Ship''
     ''Three API Owners must approve your intent''
     GATE_API_SHIP THREE_LGTM (Str API_OWNERS_URL) ''API Owners'' None DEFAULT_SLO_LIMIT"

definition PlanApproval :: gate_info where
  "PlanApproval = GateInfo
     ''Intent to Deprecate and Remove''
     ''Three API Owners must approve your intent''
     GATE_API_PLAN THREE_LGTM (Str API_OWNERS_URL) ''API Owners'' None DEFAULT_SLO_LIMIT"

definition PrivacyOriginTrialApproval :: gate_info where
  "PrivacyOriginTrialApproval = GateInfo
     ''Privacy OT Review''
     ''Privacy OT Review''
     GATE_PRIVACY_ORIGIN_TRIAL ONE_LGTM PRIVACY_APPROVERS ''Privacy''
     (Some ''chrome-privacy-owp-rotation@google.com'') 6"

definition PrivacyShipApproval :: gate_info where
  "PrivacyShipApproval = GateInfo
     ''Privacy Ship Review''
     ''Privacy Ship Review''
     GATE_PRIVACY_SHIP ONE_LGTM PRIVACY_APPROVERS ''Privacy''
     (Some ''chrome-privacy-owp-rotation@google.com'') 6"

definition SecurityOriginTrialApproval :: gate_info where
  "SecurityOriginTrialApproval = GateInfo
     ''Security OT Review''
     ''Security OT Review''
     GATE_SECURITY_ORIGIN_TRIAL ONE_LGTM SECURITY_APPROVERS ''WP Security'' None 6"

definition SecurityShipApproval :: gate_info where
  "SecurityShipApproval = GateInfo
     ''Security Ship Review''
     ''Security Ship Review''
     GATE_SECURITY_SHIP ONE_LGTM SECURITY_APPROVERS ''WP Security'' None 6"

definition EnterpriseShipApproval :: gate_info where
  "EnterpriseShipApproval = GateInfo
     ''Enterprise Ship Review''
     ''Enterprise Ship Review''
     GATE_ENTERPRISE_SHIP ONE_LGTM ENTERPRISE_APPROVERS ''Enterprise'' None DEFAULT_SLO_LIMIT"

definition EnterprisePlanApproval :: gate_info where
  "EnterprisePlanApproval = GateInfo
     ''Enterprise Deprecation Plan Review''
     ''Enterprise Deprecation Plan Review''
     GATE_ENTERPRISE_PLAN ONE_LGTM ENTERPRISE_APPROVERS ''Enterprise'' None DEFAULT_SLO_LIMIT"

definition DebuggabilityOriginTrialApproval :: gate_info where
  "DebuggabilityOriginTrialApproval = GateInfo
     ''Debuggability OT Review''
     ''Debuggability OT Review''
     GATE_DEBUGGABILITY_ORIGIN_TRIAL ONE_LGTM DEBUGGABILITY_APPROVERS ''Debuggability''
     (Some ''devtools-dev@chromium.org'') DEFAULT_SLO_LIMIT"

definition DebuggabilityShipApproval :: gate_info where
  "DebuggabilityShipApproval = GateInfo
     ''Debuggability Ship Review''
     ''Debuggability Ship Review''
     GATE_DEBUGGABILITY_SHIP ONE_LGTM DEBUGGABILITY_APPROVERS ''Debuggability''
     (Some ''devtools-dev@chromium.org'') DEFAULT_SLO_LIMIT"

definition DebuggabilityPlanApproval :: gate_info where
  "DebuggabilityPlanApproval = GateInfo
     ''Debuggability Deprecation Plan Review''
     ''Debuggability Deprecation Plan Review''
     GATE_DEBUGGABILITY_PLAN ONE_LGTM DEBUGGABILITY_APPROVERS ''Debuggability''
     (Some ''devtools-dev@chromium.org'') DEFAULT_SLO_LIMIT"

definition TestingShipApproval :: gate_info where
  "TestingShipApproval = GateInfo
     ''Testing Ship Review''
     ''Testing Ship Review''
     GATE_TESTING_SHIP ONE_LGTM TESTING_APPROVERS ''Testing'' None DEFAULT_SLO_LIMIT"

definition TestingPlanApproval :: gate_info where
  "TestingPlanApproval = GateInfo
     ''Testing Deprecation Plan Review''
     ''Testing Deprecation Plan Review''
     GATE_TESTING_PLAN ONE_LGTM TESTING_APPROVERS ''Testing'' None DEFAULT_SLO_LIMIT"

text \<open>
  The dict comprehension keyed by afd.gate_type: of two entries with one key the later
  one stays, so the lookup goes through the list from its end.
\<close>

definition APPROVAL_FIELDS_BY_ID :: "gate_type \<rightharpoonup> gate_info" where
  "APPROVAL_FIELDS_BY_ID =
     map_of (rev (map (\<lambda>afd. (gate_info.gate_type afd, afd))
       [PrototypeApproval, ExperimentApproval, ExtendExperimentApproval,
        ShipApproval, PlanApproval,
        PrivacyOriginTrialApproval, PrivacyShipApproval,
        SecurityOriginTrialApproval, SecurityShipApproval,
        EnterpriseShipApproval, EnterprisePlanApproval,
        DebuggabilityOriginTrialApproval, DebuggabilityShipApproval,
        DebuggabilityPlanApproval,
        TestingShipApproval, TestingPlanApproval]))"

section \<open>The persistent store\<close>

text \<open>
  Modelled from the spec: the Gate rows of the persistent store (class Gate of
  internals/review_models is not among the sources), with the fields the sources read
  and write. A gate "holds a feature identifier, a gate type, a current aggregate state,
  an optional assignee list, and timestamps"; the timestamps, which only the SLO recorder
  touches, live in the extension part of the record.
\<close>

record gate =
  feature_id :: int
  gate_type :: gate_type
  state :: state
  assignee_emails :: "string list"

text \<open>
  Modelled from the spec: the store holds rows under integer keys (entity.key.integer_id());
  a query returns the matching rows with their keys, in the order of the table. put() of an
  entity that has a key writes the row of that key; put() of a new entity gives it a key
  that no row of the table has; key.delete() removes the row of that key.
\<close>

record 'a store =
  gate_rows :: "(nat \<times> 'a gate_scheme) list"
  vote_rows :: "(nat \<times> vote) list"

definition fresh_key :: "(nat \<times> 'r) list \<Rightarrow> nat" where
  "fresh_key rows = Suc (fold max (map fst rows) 0)"

definition put_row :: "nat \<Rightarrow> 'r \<Rightarrow> (nat \<times> 'r) list \<Rightarrow> (nat \<times> 'r) list" where
  "put_row k r rows =
     (if k \<in> fst ` set rows then map (\<lambda>(k', r'). if k' = k then (k, r) else (k', r')) rows
      else rows @ [(k, r)])"

definition delete_row :: "nat \<Rightarrow> (nat \<times> 'r) list \<Rightarrow> (nat \<times> 'r) list" where
  "delete_row k rows = filter (\<lambda>(k', r'). k' \<noteq> k) rows"

text \<open>
  Modelled from the spec: Vote.get_votes(feature_id, gate_id, set_by), the queries "votes
  by gate id" and "votes by feature+gate+setter": a criterion that is None is not applied.
\<close>

definition get_votes ::
  "'a store \<Rightarrow> int option \<Rightarrow> nat option \<Rightarrow> string option \<Rightarrow> (nat \<times> vote) list" where
  "get_votes s fid gid who =
     filter (\<lambda>(k, v).
        (fid = None \<or> fid = Some (vote.feature_id v)) \<and>
        (gid = None \<or> gid = vote.gate_id v) \<and>
        (who = None \<or> who = Some (vote.set_by v))) (vote_rows s)"

text \<open>
  Modelled from the spec: Gate.get_by_id, the lookup of a gate by its key; without an id
  no gate is found.
\<close>

definition Gate_get_by_id :: "'a store \<Rightarrow> nat option \<Rightarrow> (nat \<times> 'a gate_scheme) option" where
  "Gate_get_by_id s gid =
     (case gid of
        None \<Rightarrow> None
      | Some k \<Rightarrow> (case map_of (gate_rows s) k of None \<Rightarrow> None | Some g \<Rightarrow> Some (k, g)))"

text \<open>
  Modelled from the spec: Vote.is_valid_state, "newState must be one of the defined vote
  states"; PREPARING is a state of gates only.
\<close>

definition is_valid_state :: "state \<Rightarrow> bool" where
  "is_valid_state s \<longleftrightarrow>
     s \<in> {NO_RESPONSE, NEEDS_WORK, REVIEW_REQUESTED, REVIEW_STARTED, INTERNAL_REVIEW, DENIED,
          APPROVED, NA, NA_REQUESTED, NA_SELF, NA_VERIFIED}"

section \<open>Vote submission\<close>

text \<open>
  Exceptions as values. Raised e is an exception that a library call raises (the HTTP
  client, base64); the others are raised by the statements of the sources themselves.
\<close>

datatype error = ValueError | KeyError | UnboundLocalError | TypeError | Raised string

definition get_gate_by_type :: "'a store \<Rightarrow> int \<Rightarrow> gate_type \<Rightarrow> (nat \<times> 'a gate_scheme) option" where
  "get_gate_by_type s fid gt =
     (case filter (\<lambda>(k, g). gate.feature_id g = fid \<and> gate.gate_type g = gt) (gate_rows s) of
        [] \<Rightarrow> None
      | g # _ \<Rightarrow> Some g)"

definition update_gate_approval_state :: "'a gate_scheme \<Rightarrow> vote list \<Rightarrow> 'a gate_scheme \<times> bool" where
  "update_gate_approval_state g vs =
     (let afd = APPROVAL_FIELDS_BY_ID (gate.gate_type g);
          rl = (case afd of Some a \<Rightarrow> gate_info.rule a | None \<Rightarrow> ONE_LGTM);
          new_state = calc_gate_state vs rl
      in if new_state = gate.state g then (g, False)
         else (g\<lparr>gate.state := new_state\<rparr>, True))"

text \<open>
  set_vote in three blocks, so that the steps of another handler can be placed between
  them. The first block is the lookup of the gate at the head of the function: None is the
  early return None; otherwise the values of gate, gate_id and gate_type after it.
\<close>

definition resolve_gate ::
  "'a store \<Rightarrow> int \<Rightarrow> gate_type option \<Rightarrow> nat option \<Rightarrow>
   ((nat \<times> 'a gate_scheme) option \<times> nat option \<times> gate_type option) option" where
  "resolve_gate s fid gtype gid =
     (case (gid, gtype) of
        (None, Some gt) \<Rightarrow>
          (case get_gate_by_type s fid gt of
             None \<Rightarrow> None
           | Some g \<Rightarrow> Some (Some g, Some (fst g), Some (gate.gate_type (snd g))))
      | _ \<Rightarrow> Some (Gate_get_by_id s gid, gid, gtype))"

text \<open>
  The second block, given existing_list: the first existing vote is overwritten and put,
  or a new Vote is built and put. The second component is new_vote (the key of the new row).
\<close>

definition write_vote ::
  "'a store \<Rightarrow> (nat \<times> vote) list \<Rightarrow> datetime \<Rightarrow> int \<Rightarrow> nat option \<Rightarrow> gate_type option \<Rightarrow>
   state \<Rightarrow> string \<Rightarrow> 'a store \<times> nat option" where
  "write_vote s existing_list now fid gid gtype new_state set_by_email =
     (case existing_list of
        (k, existing) # _ \<Rightarrow>
          (s\<lparr>vote_rows := put_row k (existing\<lparr>vote.set_on := now, vote.state := new_state\<rparr>) (vote_rows s)\<rparr>,
           None)
      | [] \<Rightarrow>
          (let k = fresh_key (vote_rows s);
               new_vote = \<lparr>vote.feature_id = fid, gate_id = gid, gate_type = gtype,
                            state = new_state, set_on = now, set_by = set_by_email\<rparr>
           in (s\<lparr>vote_rows := vote_rows s @ [(k, new_vote)]\<rparr>, Some k)))"

text \<open>
  The third block, from "if gate:" on. record_vote is slo.record_vote (internals/slo is not
  among the sources): it may change the gate in memory and reports whether it did.
\<close>

definition finish_vote ::
  "('a gate_scheme \<Rightarrow> vote list \<Rightarrow> state \<Rightarrow> 'a gate_scheme \<times> bool) \<Rightarrow> 'a store \<Rightarrow>
   (nat \<times> 'a gate_scheme) option \<Rightarrow> nat option \<Rightarrow> datetime \<Rightarrow> string \<Rightarrow>
   'a store \<times> state option" where
  "finish_vote record_vote s gate_ent new_vote now set_by_email =
     (case gate_ent of
        None \<Rightarrow> (s, None)
      | Some (gk, g) \<Rightarrow>
          (let vs = get_votes s None (Some gk) None;
               double_votes =
                 filter (\<lambda>(k, v). vote.set_by v = set_by_email \<and> vote.set_on v < now) vs
           in if new_vote \<noteq> None \<and> double_votes \<noteq> [] then
                (s\<lparr>vote_rows := (case new_vote of
                                Some nk \<Rightarrow> delete_row nk (vote_rows s)
                              | None \<Rightarrow> vote_rows s)\<rparr>,
                 None)
              else
                (let old_gate_state = gate.state g;
                     (g1, state_was_updated) = update_gate_approval_state g (map snd vs);
                     (g2, slo_was_updated) = record_vote g1 (map snd vs) old_gate_state
                 in if state_was_updated \<or> slo_was_updated then
                      (s\<lparr>gate_rows := put_row gk g2 (gate_rows s)\<rparr>, Some (gate.state g2))
                    else (s, None))))"

text \<open>
  set_vote, run without interference: the three blocks on one store, with the check of
  new_state between the first and the second. now is the value of datetime.now() that
  the call observes. The result is the raised exception or the returned value, and the
  store after the call.
\<close>

definition set_vote ::
  "('a gate_scheme \<Rightarrow> vote list \<Rightarrow> state \<Rightarrow> 'a gate_scheme \<times> bool) \<Rightarrow> 'a store \<Rightarrow> datetime \<Rightarrow>
   int \<Rightarrow> gate_type option \<Rightarrow> state \<Rightarrow> string \<Rightarrow> nat option \<Rightarrow>
   (error + state option) \<times> 'a store" where
  "set_vote record_vote s now fid gtype new_state set_by_email gid =
     (case resolve_gate s fid gtype gid of
        None \<Rightarrow> (Inr None, s)
      | Some (gate_ent, gid', gtype') \<Rightarrow>
          if \<not> is_valid_state new_state then (Inl ValueError, s)
          else
            (let existing_list = get_votes s (Some fid) gid' (Some set_by_email);
                 (s1, new_vote) =
                   write_vote s existing_list now fid gid' gtype' new_state set_by_email;
                 (s2, res) = finish_vote record_vote s1 gate_ent new_vote now set_by_email
             in (Inr res, s2)))"

text \<open>
  set_vote with the steps of other handlers between its query for the existing votes and
  its put: other is what they do to the store in between. Everything else is set_vote.
\<close>

definition set_vote_interleaved ::
  "('a gate_scheme \<Rightarrow> vote list \<Rightarrow> state \<Rightarrow> 'a gate_scheme \<times> bool) \<Rightarrow> ('a store \<Rightarrow> 'a store) \<Rightarrow>
   'a store \<Rightarrow> datetime \<Rightarrow> int \<Rightarrow> gate_type option \<Rightarrow> state \<Rightarrow> string \<Rightarrow> nat option \<Rightarrow>
   (error + state option) \<times> 'a store" where
  "set_vote_interleaved record_vote other s now fid gtype new_state set_by_email gid =
     (case resolve_gate s fid gtype gid of
        None \<Rightarrow> (Inr None, s)
      | Some (gate_ent, gid', gtype') \<Rightarrow>
          if \<not> is_valid_state new_state then (Inl ValueError, s)
          else
            (let existing_list = get_votes s (Some fid) gid' (Some set_by_email);
                 (s1, new_vote) =
                   write_vote (other s) existing_list now fid gid' gtype' new_state set_by_email;
                 (s2, res) = finish_vote record_vote s1 gate_ent new_vote now set_by_email
             in (Inr res, s2)))"

subsection \<open>Scenarios of vote submission\<close>

text \<open>An SLO recorder that changes nothing, a gate of feature 1 under key 7, and stores.\<close>

definition slo_unchanged :: "gate \<Rightarrow> vote list \<Rightarrow> state \<Rightarrow> gate \<times> bool" where
  "slo_unchanged g vs old_gate_state = (g, False)"

definition ship_gate :: gate where
  "ship_gate =
     \<lparr>gate.feature_id = 1, gate_type = GATE_API_SHIP, state = PREPARING, assignee_emails = []\<rparr>"

definition empty_store :: "unit store" where
  "empty_store = \<lparr>gate_rows = [], vote_rows = []\<rparr>"

definition one_gate_store :: "unit store" where
  "one_gate_store = \<lparr>gate_rows = [(7, ship_gate)], vote_rows = []\<rparr>"

text \<open>
  A second handler of the same voter for the same gate, which observes the time 20 and
  votes DENIED: its whole call, as a change of the store.
\<close>

definition other_handler :: "unit store \<Rightarrow> unit store" where
  "other_handler s = snd (set_vote slo_unchanged s 20 1 None DENIED ''a@x.org'' (Some 7))"

text \<open>
  The store a handler that observed the time 20 finds at its reload, after another handler
  of the same voter, which observed the time 10, has put its row under key 1: its own new
  row is under key 2.
\<close>

definition lost_race_store :: "unit store" where
  "lost_race_store =
     \<lparr>gate_rows = [(7, ship_gate)],
      vote_rows =
        [(1, \<lparr>vote.feature_id = 1, gate_id = Some 7, gate_type = None, state = DENIED,
               set_on = 10, set_by = ''a@x.org''\<rparr>),
         (2, \<lparr>vote.feature_id = 1, gate_id = Some 7, gate_type = None, state = APPROVED,
               set_on = 20, set_by = ''a@x.org''\<rparr>)]\<rparr>"

text \<open>A store whose one vote names gate 7 under another feature than the gate's.\<close>

definition stray_vote_store :: "unit store" where
  "stray_vote_store =
     \<lparr>gate_rows = [(7, ship_gate)],
      vote_rows =
        [(4, \<lparr>vote.feature_id = 2, gate_id = Some 7, gate_type = None, state = DENIED,
               set_on = 10, set_by = ''a@x.org''\<rparr>)]\<rparr>"

text \<open>
  The store a handler that observed the time 20 finds at its reload when the row of the
  other handler, under key 1, carries the same time 20: its own new row is under key 2.
\<close>

definition tied_race_store :: "unit store" where
  "tied_race_store =
     \<lparr>gate_rows = [(7, ship_gate)],
      vote_rows =
        [(1, \<lparr>vote.feature_id = 1, gate_id = Some 7, gate_type = None, state = DENIED,
               set_on = 20, set_by = ''a@x.org''\<rparr>),
         (2, \<lparr>vote.feature_id = 1, gate_id = Some 7, gate_type = None, state = APPROVED,
               set_on = 20, set_by = ''a@x.org''\<rparr>)]\<rparr>"

section \<open>Reviewer auto-assignment\<close>

text \<open>
  Modelled from the spec: the stored definition of a gate type (class GateDef of
  internals/review_models is not among the sources), with the approver list and the
  rotation URL that the sources read. GateDef.get_gate_def is a parameter get_gate_def of
  the functions below.
\<close>

record gate_def =
  approvers :: "ustring list"
  rotation_url :: "string option"

text \<open>
  The HTTP client and the JSON parser are library code and parameters of the functions
  below: requests_get gives the response of a GET or the exception it raises; json_loads
  gives the parsed value, or None where json.loads raises ValueError.
\<close>

record response =
  status_code :: int
  content :: string

datatype json =
    JNull
  | JBool bool
  | JNumber int
  | JString string
  | JArray "json list"
  | JObject "(string \<times> json) list"

fun is_substring :: "string \<Rightarrow> string \<Rightarrow> bool" where
  "is_substring p [] = (p = [])"
| "is_substring p (c # cs) = (take (length p) (c # cs) = p \<or> is_substring p cs)"

text \<open>
  The test 'emails' in response_json: a key of a dict, an element of a list, a substring of
  a string; None, a boolean and a number are not iterable, which raises TypeError.
\<close>

fun contains_emails :: "json \<Rightarrow> error + bool" where
  "contains_emails (JObject kvs) = Inr (''emails'' \<in> fst ` set kvs)"
| "contains_emails (JArray xs) = Inr (JString ''emails'' \<in> set xs)"
| "contains_emails (JString s) = Inr (is_substring ''emails'' s)"
| "contains_emails j = Inl TypeError"

text \<open>
  The subscript response_json['emails'], reached when the test above is true: the value
  of the key in a dict; a list and a string take no string index, which raises TypeError.
\<close>

fun subscript_emails :: "json \<Rightarrow> error + json" where
  "subscript_emails (JObject kvs) =
     (case map_of kvs ''emails'' of Some v \<Rightarrow> Inr v | None \<Rightarrow> Inl KeyError)"
| "subscript_emails j = Inl TypeError"

text \<open>
  Modelled from the spec: the assignee list of a gate is a list of identities. A JSON
  list of strings is such a list; the store's property refuses any other value.
\<close>

fun json_string :: "json \<Rightarrow> string option" where
  "json_string (JString s) = Some s"
| "json_string j = None"

definition as_email_list :: "json \<Rightarrow> string list option" where
  "as_email_list j = (case j of JArray xs \<Rightarrow> those (map json_string xs) | _ \<Rightarrow> None)"

text \<open>
  The for loop over all_gates: Inr (Some emails) is the match, whose assignees are
  copied; Inr None is the loop running to its end. The catalog lookup of a gate type that
  the catalog does not have raises KeyError.
\<close>

fun scan_other_gates ::
  "gate_info \<Rightarrow> nat \<Rightarrow> (nat \<times> 'a gate_scheme) list \<Rightarrow> error + string list option" where
  "scan_other_gates afd gk [] = Inr None"
| "scan_other_gates afd gk ((k, other_gate) # rest) =
     (case APPROVAL_FIELDS_BY_ID (gate.gate_type other_gate) of
        None \<Rightarrow> Inl KeyError
      | Some other_afd \<Rightarrow>
          if k \<noteq> gk \<and>
             gate_info.team_name other_afd = gate_info.team_name afd \<and>
             gate_info.rule other_afd = gate_info.rule afd \<and>
             gate.assignee_emails other_gate \<noteq> []
          then Inr (Some (gate.assignee_emails other_gate))
          else scan_other_gates afd gk rest)"

text \<open>
  auto_assign_reviewer(gate). The result is the raised exception or the gate object after
  the call, and the store after the call. When json.loads raises ValueError the handler
  only logs, and the next statement reads response_json, which was never bound.
\<close>

definition auto_assign_reviewer ::
  "(gate_type \<Rightarrow> gate_def) \<Rightarrow> (string \<Rightarrow> error + response) \<Rightarrow> (string \<Rightarrow> json option) \<Rightarrow>
   'a store \<Rightarrow> nat \<times> 'a gate_scheme \<Rightarrow> (error + 'a gate_scheme) \<times> 'a store" where
  "auto_assign_reviewer get_gate_def requests_get json_loads s gate_ent =
     (case gate_ent of (gk, g) \<Rightarrow>
      (case APPROVAL_FIELDS_BY_ID (gate.gate_type g) of
         None \<Rightarrow> (Inl KeyError, s)
       | Some afd \<Rightarrow>
           (let all_gates =
                  filter (\<lambda>(k, og). gate.feature_id og = gate.feature_id g) (gate_rows s)
            in case scan_other_gates afd gk all_gates of
                 Inl e \<Rightarrow> (Inl e, s)
               | Inr (Some emails) \<Rightarrow>
                   (Inr (g\<lparr>assignee_emails := emails\<rparr>),
                    s\<lparr>gate_rows := put_row gk (g\<lparr>assignee_emails := emails\<rparr>) (gate_rows s)\<rparr>)
               | Inr None \<Rightarrow>
                   if gate_info.approvers afd \<noteq> Str IN_NDB then (Inr g, s)
                   else
                     (case gate_def.rotation_url (get_gate_def (gate.gate_type g)) of
                        None \<Rightarrow> (Inr g, s)
                      | Some u \<Rightarrow>
                          if u = [] then (Inr g, s)
                          else
                            (case requests_get u of
                               Inl e \<Rightarrow> (Inl e, s)
                             | Inr resp \<Rightarrow>
                                 if response.status_code resp \<noteq> 200 then (Inr g, s)
                                 else
                                   (case json_loads (response.content resp) of
                                      None \<Rightarrow> (Inl UnboundLocalError, s)
                                    | Some response_json \<Rightarrow>
                                        (case contains_emails response_json of
                                           Inl e \<Rightarrow> (Inl e, s)
                                         | Inr False \<Rightarrow> (Inr g, s)
                                         | Inr True \<Rightarrow>
                                             (case subscript_emails response_json of
                                                Inl e \<Rightarrow> (Inl e, s)
                                              | Inr v \<Rightarrow>
                                                  (case as_email_list v of
                                                     None \<Rightarrow> (Inl (Raised ''BadValueError''), s)
                                                   | Some emails \<Rightarrow>
                                                       (Inr (g\<lparr>assignee_emails := emails\<rparr>),
                                                        s\<lparr>gate_rows :=
                                                            put_row gk (g\<lparr>assignee_emails := emails\<rparr>)
                                                              (gate_rows s)\<rparr>))))))))))"

subsection \<open>A scenario of auto-assignment\<close>

text \<open>
  A Privacy gate of feature 1 with no other gate of the feature, a rotation URL for every
  gate type, a rotation endpoint that answers 200 with a body that is not JSON, and a parser
  that accepts only the body of the second definition below.
\<close>

definition privacy_gate :: gate where
  "privacy_gate =
     \<lparr>gate.feature_id = 1, gate_type = GATE_PRIVACY_SHIP, state = PREPARING,
      assignee_emails = []\<rparr>"

definition privacy_store :: "unit store" where
  "privacy_store = \<lparr>gate_rows = [(3, privacy_gate)], vote_rows = []\<rparr>"

definition rotation_gate_def :: "gate_type \<Rightarrow> gate_def" where
  "rotation_gate_def gt = \<lparr>approvers = [], rotation_url = Some ''https://rota.example/oncall''\<rparr>"

definition malformed_rotation :: "string \<Rightarrow> error + response" where
  "malformed_rotation u = Inr \<lparr>status_code = 200, content = ''<html>oops</html>''\<rparr>"

definition wellformed_rotation :: "string \<Rightarrow> error + response" where
  "wellformed_rotation u = Inr \<lparr>status_code = 200, content = ''{\"emails\": [\"r@x.org\"]}''\<rparr>"

definition toy_json_loads :: "string \<Rightarrow> json option" where
  "toy_json_loads body =
     (if body = ''{\"emails\": [\"r@x.org\"]}''
      then Some (JObject [(''emails'', JArray [JString ''r@x.org''])])
      else None)"

section \<open>The approver resolver\<close>

text \<open>
  Modelled from the spec: the stored copy of a fetched OWNERS document (class OwnersFile of
  internals/review_models is not among the sources): its raw content and whether
  is_fresh() holds when the call is made. add_owner_file() stores the content as the fresh
  copy of its URL.
\<close>

record owners_file =
  raw_content :: string
  fresh :: bool

text \<open>
  Modelled from the spec: the cache (framework/rediscache is not among the sources), "key/value
  with TTL": an entry holds a value and the time at which it expires, in seconds. The key
  'approvers|<gate_type>' is the pair of its two parts. What the resolver acts on: the
  cache, the stored OWNERS documents, and the list of the URLs it has sent a GET to.
\<close>

record world =
  cache :: "string \<times> gate_type \<rightharpoonup> ustring list \<times> int"
  owners_files :: "string \<rightharpoonup> owners_file"
  fetched :: "string list"

definition rediscache_get :: "world \<Rightarrow> int \<Rightarrow> string \<times> gate_type \<Rightarrow> ustring list option" where
  "rediscache_get w clock key =
     (case cache w key of
        None \<Rightarrow> None
      | Some (v, expires) \<Rightarrow> if clock < expires then Some v else None)"

definition rediscache_set :: "world \<Rightarrow> int \<Rightarrow> string \<times> gate_type \<Rightarrow> ustring list \<Rightarrow> int \<Rightarrow> world" where
  "rediscache_set w clock key v time = w\<lparr>cache := (cache w)(key \<mapsto> (v, clock + time))\<rparr>"

text \<open>decoded.split('\n'): the pieces between the separators, at least one.\<close>

fun split_on :: "'a \<Rightarrow> 'a list \<Rightarrow> 'a list list" where
  "split_on c [] = [[]]"
| "split_on c (x # xs) =
     (if x = c then [] # split_on c xs
      else (case split_on c xs of
              l # ls \<Rightarrow> (x # l) # ls
            | [] \<Rightarrow> [[x]]))"

text \<open>
  line.strip(): the code points that str.strip() removes from both ends are those for
  which str.isspace() holds: U+0009 to U+000D, U+001C to U+0020, U+0085, U+00A0, U+1680,
  U+2000 to U+200A, U+2028, U+2029, U+202F, U+205F and U+3000.
\<close>

definition is_space :: "nat \<Rightarrow> bool" where
  "is_space c \<longleftrightarrow>
     (0x0009 \<le> c \<and> c \<le> 0x000D) \<or> (0x001C \<le> c \<and> c \<le> 0x0020) \<or>
     c = 0x0085 \<or> c = 0x00A0 \<or> c = 0x1680 \<or>
     (0x2000 \<le> c \<and> c \<le> 0x200A) \<or>
     c = 0x2028 \<or> c = 0x2029 \<or> c = 0x202F \<or> c = 0x205F \<or> c = 0x3000"

definition strip :: "ustring \<Rightarrow> ustring" where
  "strip l = rev (dropWhile is_space (rev (dropWhile is_space l)))"

text \<open>
  decode_raw_owner_content. b64decode is base64.b64decode(raw_content).decode(), library
  code: the decoded text or the exception raised. owner_of_line is the body of the loop
  for one line: the line that is appended to owners, if any.
\<close>

definition owner_of_line :: "ustring \<Rightarrow> ustring option" where
  "owner_of_line l0 =
     (let l1 = (if of_char (CHR ''#'') \<in> set l0
                then takeWhile (\<lambda>c. c \<noteq> of_char (CHR ''#'')) l0 else l0);
          l2 = strip l1
      in if of_char (CHR ''@'') \<in> set l2 \<and> of_char (CHR ''.'') \<in> set l2 then Some l2
         else None)"

definition decode_raw_owner_content :: "(string \<Rightarrow> error + ustring) \<Rightarrow> string \<Rightarrow> error + ustring list" where
  "decode_raw_owner_content b64decode raw =
     (case b64decode raw of
        Inl e \<Rightarrow> Inl e
      | Inr decoded \<Rightarrow> Inr (List.map_filter owner_of_line (split_on (of_char (CHR 0x0A)) decoded)))"

definition add_owner_file :: "world \<Rightarrow> string \<Rightarrow> string \<Rightarrow> world" where
  "add_owner_file w u c = w\<lparr>owners_files := (owners_files w)(u \<mapsto> \<lparr>raw_content = c, fresh = True\<rparr>)\<rparr>"

definition fetch_owners ::
  "(string \<Rightarrow> error + response) \<Rightarrow> (string \<Rightarrow> error + ustring) \<Rightarrow> world \<Rightarrow> string \<Rightarrow>
   (error + ustring list) \<times> world" where
  "fetch_owners requests_get b64decode w u =
     (let owners_file = owners_files w u
      in case (case owners_file of Some f \<Rightarrow> if owners_file.fresh f then Some f else None
               | None \<Rightarrow> None) of
           Some f \<Rightarrow> (decode_raw_owner_content b64decode (owners_file.raw_content f), w)
         | None \<Rightarrow>
             (let w1 = w\<lparr>fetched := fetched w @ [u]\<rparr>
              in case requests_get u of
                   Inl e \<Rightarrow> (Inl e, w1)
                 | Inr resp \<Rightarrow>
                     if response.status_code resp = 200 then
                       (decode_raw_owner_content b64decode (response.content resp),
                        add_owner_file w1 u (response.content resp))
                     else
                       (case owners_file of
                          Some f \<Rightarrow>
                            (decode_raw_owner_content b64decode (owners_file.raw_content f),
                             add_owner_file w1 u (owners_file.raw_content f))
                        | None \<Rightarrow> (Inr [], w1))))"

text \<open>The truth value of a cached value in "if cached_approvers:": None and [] are false.\<close>

fun truthy :: "ustring list option \<Rightarrow> bool" where
  "truthy None = False"
| "truthy (Some []) = False"
| "truthy (Some (x # xs)) = True"

text \<open>
  get_approvers(gate_type), called at the time clock. The result is the raised exception or
  the returned list, and the world after the call.
\<close>

definition get_approvers ::
  "(gate_type \<Rightarrow> gate_def) \<Rightarrow> (string \<Rightarrow> error + response) \<Rightarrow> (string \<Rightarrow> error + ustring) \<Rightarrow>
   world \<Rightarrow> int \<Rightarrow> gate_type \<Rightarrow> (error + ustring list) \<times> world" where
  "get_approvers get_gate_def requests_get b64decode w clock gt =
     (case APPROVAL_FIELDS_BY_ID gt of
        None \<Rightarrow> (Inr [], w)
      | Some afd \<Rightarrow>
          (let cache_key = (APPROVERS_CACHE_KEY, gt);
               cached_approvers = rediscache_get w clock cache_key
           in if truthy cached_approvers then
                (Inr (case cached_approvers of Some v \<Rightarrow> v | None \<Rightarrow> []), w)
              else
                (case (if gate_info.approvers afd = Str IN_NDB then
                         (Inr (gate_def.approvers (get_gate_def gt)), w)
                       else
                         (case gate_info.approvers afd of
                            Str u \<Rightarrow> fetch_owners requests_get b64decode w u
                          | Emails l \<Rightarrow> (Inr l, w))) of
                   (Inl e, w') \<Rightarrow> (Inl e, w')
                 | (Inr owners, w') \<Rightarrow>
                     (Inr owners, rediscache_set w' clock cache_key owners CACHE_EXPIRATION))))"

subsection \<open>A scenario of approver resolution\<close>

text \<open>
  An OWNERS endpoint that is down, with no stored copy of the document: the API owners
  resolve to the empty list. An OWNERS endpoint that serves a document of two lines. A
  decoder for documents served as plain ASCII text.
\<close>

definition owners_down :: "string \<Rightarrow> error + response" where
  "owners_down u = Inr \<lparr>status_code = 503, content = []\<rparr>"

definition owners_up :: "string \<Rightarrow> error + response" where
  "owners_up u =
     Inr \<lparr>status_code = 200, content = ''# API owners'' @ [CHR 0x0A] @ '' o@chromium.org ''\<rparr>"

definition plain_b64decode :: "string \<Rightarrow> error + ustring" where
  "plain_b64decode raw = Inr (text_of raw)"

definition empty_world :: world where
  "empty_world = \<lparr>cache = Map.empty, owners_files = Map.empty, fetched = []\<rparr>"

text \<open>
  The world after a first call for the Intent to Ship gate at time 0, with the endpoint
  down and with the endpoint up.
\<close>

definition world_after_first_call :: world where
  "world_after_first_call =
     snd (get_approvers rotation_gate_def owners_down plain_b64decode empty_world 0 GATE_API_SHIP)"

definition world_after_fetch :: world where
  "world_after_fetch =
     snd (get_approvers rotation_gate_def owners_up plain_b64decode empty_world 0 GATE_API_SHIP)"

text \<open>
  The address in the document that the endpoint serves, a world whose cache holds it as the
  approver list of the Intent to Ship gate until time 3600, and the fixed approver list of
  the Testing gates.
\<close>

definition owner_email :: ustring where
  "owner_email = text_of ''o@chromium.org''"

definition cached_world :: world where
  "cached_world =
     \<lparr>cache = [(APPROVERS_CACHE_KEY, GATE_API_SHIP) \<mapsto> ([owner_email], 3600)],
      owners_files = Map.empty, fetched = []\<rparr>"

definition testing_owners :: "ustring list" where
  "testing_owners = (case TESTING_APPROVERS of Emails l \<Rightarrow> l | Str u \<Rightarrow> [])"

section \<open>Properties of the vote aggregator\<close>

lemma vote_at_simps:
  "vote.state (vote_at s t who) = s"
  "vote.set_on (vote_at s t who) = t"
  "vote.set_by (vote_at s t who) = who"
  by (simp_all add: vote_at_def)

lemma rules_distinct: "ONE_LGTM \<noteq> THREE_LGTM"
  by (simp add: ONE_LGTM_def THREE_LGTM_def)

lemma counts_Nil: "counts [] s = 0"
  by (simp add: counts_def)

lemma counts_Cons: "counts (v # vs) s = (if vote.state v = s then Suc (counts vs s) else counts vs s)"
  by (simp add: counts_def)

lemma counts_pos_iff: "counts votes s > 0 \<longleftrightarrow> (\<exists>v\<in>set votes. vote.state v = s)"
  by (induction votes) (auto simp: counts_def)

lemma set_insert_desc: "set (insert_desc v ws) = insert v (set ws)"
  by (induction ws) auto

lemma set_sorted_desc: "set (sorted_desc vs) = set vs"
  by (induction vs) (auto simp: sorted_desc_def set_insert_desc)

lemma desc_insert_desc:
  "sorted_wrt (\<lambda>a b. vote.set_on b \<le> vote.set_on a) ws \<Longrightarrow>
   sorted_wrt (\<lambda>a b. vote.set_on b \<le> vote.set_on a) (insert_desc v ws)"
  by (induction ws) (auto simp: set_insert_desc)

lemma desc_sorted_desc: "sorted_wrt (\<lambda>a b. vote.set_on b \<le> vote.set_on a) (sorted_desc vs)"
  by (induction vs) (auto simp: sorted_desc_def desc_insert_desc)

lemma first_rerequest_None:
  "first_rerequest vs = None \<longleftrightarrow> (\<forall>v\<in>set vs. vote.state v \<notin> rerequest_states)"
  by (induction vs) auto

text \<open>
  On a list in descending order of set_on, the loop returns the state of a vote of the
  tuple that no other vote of the tuple is later than.
\<close>

lemma first_rerequest_desc:
  "sorted_wrt (\<lambda>a b. vote.set_on b \<le> vote.set_on a) vs \<Longrightarrow>
   first_rerequest vs = Some s \<Longrightarrow>
   \<exists>v\<in>set vs. vote.state v \<in> rerequest_states \<and> vote.state v = s \<and>
     (\<forall>w\<in>set vs. vote.state w \<in> rerequest_states \<longrightarrow> vote.set_on w \<le> vote.set_on v)"
proof (induction vs)
  case Nil
  then show ?case by simp
next
  case (Cons a vs)
  show ?case
  proof (cases "vote.state a \<in> rerequest_states")
    case True
    with Cons.prems show ?thesis by auto
  next
    case False
    with Cons.prems have "first_rerequest vs = Some s"
      and "sorted_wrt (\<lambda>a b. vote.set_on b \<le> vote.set_on a) vs" by auto
    from Cons.IH[OF this(2) this(1)] False show ?thesis by auto
  qed
qed

text \<open>The function in the vocabulary above: the four stages in the order of the code.\<close>

lemma calc_unfold:
  "calc_gate_state votes rl =
     (if counts (counted votes) NA_SELF = 1 \<and> rl = ONE_LGTM \<and> length (counted votes) = 1
        then NA_SELF
      else if counts (counted votes) NA_SELF = 1 \<and> rl = ONE_LGTM \<and>
              counts (counted votes) NA_VERIFIED \<ge> 1
        then NA_VERIFIED
      else if (rl = ONE_LGTM \<and> lgtm_count votes \<ge> 1) \<or>
              (rl = THREE_LGTM \<and> lgtm_count votes \<ge> 3)
        then (if counts (counted votes) NA > 0 then NA else APPROVED)
      else (case first_rerequest (sorted_desc (counted votes)) of
              Some s \<Rightarrow> s
            | None \<Rightarrow>
                if rl = THREE_LGTM \<and> lgtm_count votes \<ge> 1 then REVIEW_REQUESTED
                else PREPARING))"
  unfolding calc_gate_state_def lgtm_count_def counted_def Let_def ..

lemma not_na_self_case:
  assumes "\<not> na_self_case votes rl"
  shows "\<not> (counts (counted votes) NA_SELF = 1 \<and> rl = ONE_LGTM \<and> length (counted votes) = 1)"
    and "\<not> (counts (counted votes) NA_SELF = 1 \<and> rl = ONE_LGTM \<and>
              counts (counted votes) NA_VERIFIED \<ge> 1)"
  using assms by (auto simp: na_self_case_def)

lemma calc_quorum:
  assumes "\<not> na_self_case votes rl" and "quorum_met votes rl"
  shows "calc_gate_state votes rl = (if counts (counted votes) NA > 0 then NA else APPROVED)"
proof -
  note a = not_na_self_case[OF assms(1)]
  have q: "(rl = ONE_LGTM \<and> lgtm_count votes \<ge> 1) \<or>
           (rl = THREE_LGTM \<and> lgtm_count votes \<ge> 3)"
    using assms(2) by (simp add: quorum_met_def)
  show ?thesis
    by (subst calc_unfold) (simp only: a q if_False if_True)
qed

lemma calc_fallthrough:
  assumes "\<not> na_self_case votes rl" and "\<not> quorum_met votes rl"
  shows "calc_gate_state votes rl =
     (case first_rerequest (sorted_desc (counted votes)) of
        Some s \<Rightarrow> s
      | None \<Rightarrow>
          if rl = THREE_LGTM \<and> lgtm_count votes \<ge> 1 then REVIEW_REQUESTED else PREPARING)"
proof -
  note a = not_na_self_case[OF assms(1)]
  have q: "\<not> ((rl = ONE_LGTM \<and> lgtm_count votes \<ge> 1) \<or>
              (rl = THREE_LGTM \<and> lgtm_count votes \<ge> 3))"
    using assms(2) by (simp add: quorum_met_def)
  show ?thesis
    by (subst calc_unfold) (simp only: a q if_False)
qed

lemma calc_no_rerequest:
  assumes "\<not> na_self_case votes rl" and "\<not> quorum_met votes rl"
    and "\<forall>v\<in>set (counted votes). vote.state v \<notin> rerequest_states"
  shows "calc_gate_state votes rl =
     (if rl = THREE_LGTM \<and> lgtm_count votes \<ge> 1 then REVIEW_REQUESTED else PREPARING)"
proof -
  have "first_rerequest (sorted_desc (counted votes)) = None"
    using assms(3) by (simp add: first_rerequest_None set_sorted_desc)
  then show ?thesis
    using calc_fallthrough[OF assms(1,2)] by simp
qed

text \<open>
  C9. For every vote list and every rule, the gate state computed from the list with all
  NO_RESPONSE votes removed equals the gate state computed from the list itself:
  NO_RESPONSE votes never influence the result, whatever their number and timestamps.
\<close>

theorem no_response_votes_ignored:
  "calc_gate_state (filter (\<lambda>v. vote.state v \<noteq> NO_RESPONSE) votes) rl =
   calc_gate_state votes rl"
  by (simp add: calc_gate_state_def)

theorem no_response_votes_ignored_witness:
  "calc_gate_state
     (filter (\<lambda>v. vote.state v \<noteq> NO_RESPONSE)
        [vote_at NO_RESPONSE 9 ''a'', vote_at DENIED 1 ''b'', vote_at NO_RESPONSE 0 ''c'']) ONE_LGTM =
   calc_gate_state
     [vote_at NO_RESPONSE 9 ''a'', vote_at DENIED 1 ''b'', vote_at NO_RESPONSE 0 ''c''] ONE_LGTM
   \<and> calc_gate_state
     [vote_at NO_RESPONSE 9 ''a'', vote_at DENIED 1 ''b'', vote_at NO_RESPONSE 0 ''c''] ONE_LGTM = DENIED"
  using no_response_votes_ignored
    [of "[vote_at NO_RESPONSE 9 ''a'', vote_at DENIED 1 ''b'', vote_at NO_RESPONSE 0 ''c'']" ONE_LGTM]
  by (simp add: calc_gate_state_def vote_at_simps counts_Cons counts_Nil sorted_desc_def
        rerequest_states_def rules_distinct)

text \<open>
  C1. For every vote list and rule: when neither return of the NA_SELF block is taken and
  the number of APPROVED and NA votes among the votes other than NO_RESPONSE meets the
  quorum of the rule (at least 1 under ONE_LGTM, at least 3 under THREE_LGTM), the result
  is NA if one of these votes is NA and APPROVED otherwise. Nothing is assumed about the
  other votes or about any timestamp.
\<close>

theorem quorum_gives_na_or_approved:
  assumes "\<not> na_self_case votes rl" and "quorum_met votes rl"
  shows "calc_gate_state votes rl =
     (if \<exists>v\<in>set (counted votes). vote.state v = NA then NA else APPROVED)"
  using calc_quorum[OF assms] by (simp only: counts_pos_iff)

theorem quorum_gives_na_or_approved_witness:
  "\<not> na_self_case [vote_at APPROVED 1 ''a'', vote_at DENIED 5 ''b'', vote_at NA 2 ''c'',
       vote_at APPROVED 3 ''d''] THREE_LGTM \<and>
   quorum_met [vote_at APPROVED 1 ''a'', vote_at DENIED 5 ''b'', vote_at NA 2 ''c'',
       vote_at APPROVED 3 ''d''] THREE_LGTM \<and>
   calc_gate_state [vote_at APPROVED 1 ''a'', vote_at DENIED 5 ''b'', vote_at NA 2 ''c'',
       vote_at APPROVED 3 ''d''] THREE_LGTM = NA"
proof -
  let ?vs = "[vote_at APPROVED 1 ''a'', vote_at DENIED 5 ''b'', vote_at NA 2 ''c'',
       vote_at APPROVED 3 ''d'']"
  have h1: "\<not> na_self_case ?vs THREE_LGTM"
    by (simp add: na_self_case_def rules_distinct[symmetric])
  have h2: "quorum_met ?vs THREE_LGTM"
    by (simp add: quorum_met_def lgtm_count_def counted_def vote_at_simps counts_Cons counts_Nil)
  show ?thesis
    using h1 h2 quorum_gives_na_or_approved[OF h1 h2]
    by (simp add: counted_def vote_at_simps)
qed

text \<open>
  C5. Under the ONE_LGTM rule: if exactly one vote is left after the NO_RESPONSE votes are
  discarded and it is NA_SELF, the result is NA_SELF; if exactly one NA_SELF vote is left
  together with further votes of which at least one is NA_VERIFIED, the result is
  NA_VERIFIED. Neither case asks anything of the number of APPROVED and NA votes, so both
  come before the quorum computation.
\<close>

theorem na_self_special_case:
  assumes "rl = ONE_LGTM"
  shows "(length (counted votes) = 1 \<and> counts (counted votes) NA_SELF = 1 \<longrightarrow>
            calc_gate_state votes rl = NA_SELF) \<and>
         (counts (counted votes) NA_SELF = 1 \<and> length (counted votes) > 1 \<and>
          (\<exists>v\<in>set (counted votes). vote.state v = NA_VERIFIED) \<longrightarrow>
            calc_gate_state votes rl = NA_VERIFIED)"
proof (intro conjI impI)
  assume "length (counted votes) = 1 \<and> counts (counted votes) NA_SELF = 1"
  then show "calc_gate_state votes rl = NA_SELF"
    using assms by (subst calc_unfold) simp
next
  assume a: "counts (counted votes) NA_SELF = 1 \<and> length (counted votes) > 1 \<and>
          (\<exists>v\<in>set (counted votes). vote.state v = NA_VERIFIED)"
  then have "counts (counted votes) NA_VERIFIED > 0"
    by (simp only: counts_pos_iff)
  with a show "calc_gate_state votes rl = NA_VERIFIED"
    using assms by (subst calc_unfold) simp
qed

theorem na_self_special_case_witness:
  "calc_gate_state [vote_at NO_RESPONSE 4 ''z'', vote_at NA_SELF 1 ''a''] ONE_LGTM = NA_SELF \<and>
   quorum_met [vote_at NA_SELF 1 ''a'', vote_at APPROVED 2 ''b'', vote_at NA_VERIFIED 3 ''c''] ONE_LGTM \<and>
   calc_gate_state [vote_at NA_SELF 1 ''a'', vote_at APPROVED 2 ''b'', vote_at NA_VERIFIED 3 ''c'']
     ONE_LGTM = NA_VERIFIED"
proof -
  have r: "ONE_LGTM = ONE_LGTM" ..
  show ?thesis
    using na_self_special_case[OF r, of "[vote_at NO_RESPONSE 4 ''z'', vote_at NA_SELF 1 ''a'']"]
      na_self_special_case[OF r,
        of "[vote_at NA_SELF 1 ''a'', vote_at APPROVED 2 ''b'', vote_at NA_VERIFIED 3 ''c'']"]
    by (simp add: counted_def vote_at_simps counts_Cons counts_Nil quorum_met_def lgtm_count_def)
qed

text \<open>
  C7. When neither return of the NA_SELF block is taken and the quorum is not met, and at
  least one vote other than NO_RESPONSE has a state among NEEDS_WORK, REVIEW_STARTED,
  REVIEW_REQUESTED, DENIED, INTERNAL_REVIEW and NA_REQUESTED, the result is the state of
  such a vote that no other such vote is more recent than; so a vote of these states that
  is strictly more recent than every other one decides the result. In particular the
  votes DENIED at t1 and REVIEW_REQUESTED at t2 > t1 give REVIEW_REQUESTED, under any
  rule.
\<close>

theorem most_recent_rerequest_wins:
  "(\<not> na_self_case votes rl \<and> \<not> quorum_met votes rl \<and>
    (\<exists>v\<in>set (counted votes). vote.state v \<in> rerequest_states) \<longrightarrow>
      (\<exists>v\<in>set (counted votes). vote.state v \<in> rerequest_states \<and>
         (\<forall>w\<in>set (counted votes). vote.state w \<in> rerequest_states \<longrightarrow>
            vote.set_on w \<le> vote.set_on v) \<and>
         calc_gate_state votes rl = vote.state v) \<and>
      (\<forall>v\<in>set (counted votes). vote.state v \<in> rerequest_states \<and>
         (\<forall>w\<in>set (counted votes). vote.state w \<in> rerequest_states \<and> w \<noteq> v \<longrightarrow>
            vote.set_on w < vote.set_on v) \<longrightarrow>
         calc_gate_state votes rl = vote.state v)) \<and>
   (vote.state d = DENIED \<and> vote.state r = REVIEW_REQUESTED \<and> vote.set_on d < vote.set_on r \<longrightarrow>
      calc_gate_state [d, r] rl = REVIEW_REQUESTED)"
proof (intro conjI impI)
  assume a: "\<not> na_self_case votes rl \<and> \<not> quorum_met votes rl \<and>
    (\<exists>v\<in>set (counted votes). vote.state v \<in> rerequest_states)"
  then obtain s where s: "first_rerequest (sorted_desc (counted votes)) = Some s"
    using first_rerequest_None[of "sorted_desc (counted votes)"]
    by (auto simp: set_sorted_desc)
  from first_rerequest_desc[OF desc_sorted_desc s]
  obtain v where v: "v \<in> set (counted votes)" "vote.state v \<in> rerequest_states" "vote.state v = s"
    "\<forall>w\<in>set (counted votes). vote.state w \<in> rerequest_states \<longrightarrow> vote.set_on w \<le> vote.set_on v"
    by (auto simp: set_sorted_desc)
  have res: "calc_gate_state votes rl = s"
    using calc_fallthrough[of votes rl] a s by simp
  from v res
  show "\<exists>v\<in>set (counted votes). vote.state v \<in> rerequest_states \<and>
         (\<forall>w\<in>set (counted votes). vote.state w \<in> rerequest_states \<longrightarrow>
            vote.set_on w \<le> vote.set_on v) \<and>
         calc_gate_state votes rl = vote.state v"
    by blast
  show "\<forall>v\<in>set (counted votes). vote.state v \<in> rerequest_states \<and>
         (\<forall>w\<in>set (counted votes). vote.state w \<in> rerequest_states \<and> w \<noteq> v \<longrightarrow>
            vote.set_on w < vote.set_on v) \<longrightarrow>
         calc_gate_state votes rl = vote.state v"
  proof (intro ballI impI)
    fix u
    assume u: "u \<in> set (counted votes)"
      and m: "vote.state u \<in> rerequest_states \<and>
         (\<forall>w\<in>set (counted votes). vote.state w \<in> rerequest_states \<and> w \<noteq> u \<longrightarrow>
            vote.set_on w < vote.set_on u)"
    have "v = u"
    proof (rule ccontr)
      assume "v \<noteq> u"
      with m v(1,2) have "vote.set_on v < vote.set_on u" by blast
      moreover from v(4) u m have "vote.set_on u \<le> vote.set_on v" by blast
      ultimately show False by simp
    qed
    with v(3) res show "calc_gate_state votes rl = vote.state u" by simp
  qed
next
  assume a: "vote.state d = DENIED \<and> vote.state r = REVIEW_REQUESTED \<and> vote.set_on d < vote.set_on r"
  then show "calc_gate_state [d, r] rl = REVIEW_REQUESTED"
    by (simp add: calc_gate_state_def counts_Cons counts_Nil sorted_desc_def rerequest_states_def)
qed

theorem most_recent_rerequest_wins_witness:
  "\<not> na_self_case [vote_at REVIEW_REQUESTED 2 ''a'', vote_at APPROVED 9 ''b'', vote_at NEEDS_WORK 5 ''c'',
        vote_at DENIED 3 ''d''] THREE_LGTM \<and>
   \<not> quorum_met [vote_at REVIEW_REQUESTED 2 ''a'', vote_at APPROVED 9 ''b'', vote_at NEEDS_WORK 5 ''c'',
        vote_at DENIED 3 ''d''] THREE_LGTM \<and>
   calc_gate_state [vote_at REVIEW_REQUESTED 2 ''a'', vote_at APPROVED 9 ''b'', vote_at NEEDS_WORK 5 ''c'',
        vote_at DENIED 3 ''d''] THREE_LGTM = NEEDS_WORK \<and>
   calc_gate_state [vote_at DENIED 1 ''a'', vote_at REVIEW_REQUESTED 2 ''b''] ONE_LGTM = REVIEW_REQUESTED"
proof -
  let ?vs = "[vote_at REVIEW_REQUESTED 2 ''a'', vote_at APPROVED 9 ''b'', vote_at NEEDS_WORK 5 ''c'',
        vote_at DENIED 3 ''d'']"
  have h1: "\<not> na_self_case ?vs THREE_LGTM"
    by (simp add: na_self_case_def rules_distinct[symmetric])
  have h2: "\<not> quorum_met ?vs THREE_LGTM"
    by (simp add: quorum_met_def lgtm_count_def counted_def vote_at_simps counts_Cons counts_Nil
          rules_distinct[symmetric])
  have h3: "vote_at NEEDS_WORK 5 ''c'' \<in> set (counted ?vs)"
    by (simp add: counted_def vote_at_simps)
  have h4: "vote.state (vote_at NEEDS_WORK 5 ''c'') \<in> rerequest_states \<and>
         (\<forall>w\<in>set (counted ?vs). vote.state w \<in> rerequest_states \<and> w \<noteq> vote_at NEEDS_WORK 5 ''c'' \<longrightarrow>
            vote.set_on w < vote.set_on (vote_at NEEDS_WORK 5 ''c''))"
    by (simp add: counted_def vote_at_simps rerequest_states_def)
  have h5: "\<exists>v\<in>set (counted ?vs). vote.state v \<in> rerequest_states"
    using h3 h4 by blast
  have "calc_gate_state ?vs THREE_LGTM = vote.state (vote_at NEEDS_WORK 5 ''c'')"
    using most_recent_rerequest_wins[of ?vs THREE_LGTM] h1 h2 h3 h4 h5 by blast
  moreover have "calc_gate_state [vote_at DENIED 1 ''a'', vote_at REVIEW_REQUESTED 2 ''b''] ONE_LGTM
      = REVIEW_REQUESTED"
    using most_recent_rerequest_wins[of _ ONE_LGTM "vote_at DENIED 1 ''a''" "vote_at REVIEW_REQUESTED 2 ''b''"]
    by (simp add: vote_at_simps)
  ultimately show ?thesis using h1 h2 by (simp add: vote_at_simps)
qed

text \<open>
  C8. Under the THREE_LGTM rule, with at least one and fewer than three APPROVED or NA
  votes and no vote of the states NEEDS_WORK, REVIEW_STARTED, REVIEW_REQUESTED, DENIED,
  INTERNAL_REVIEW, NA_REQUESTED, the result is REVIEW_REQUESTED. When no branch of the
  function matches, as for the empty vote list, the result is PREPARING. In particular
  two APPROVED votes give REVIEW_REQUESTED and three give APPROVED.
\<close>

theorem partial_lgtm_and_preparing:
  "(rl = THREE_LGTM \<and> 1 \<le> lgtm_count votes \<and> lgtm_count votes < 3 \<and>
    (\<forall>v\<in>set (counted votes). vote.state v \<notin> rerequest_states) \<longrightarrow>
      calc_gate_state votes rl = REVIEW_REQUESTED) \<and>
   (\<not> na_self_case votes rl \<and> \<not> quorum_met votes rl \<and>
    (\<forall>v\<in>set (counted votes). vote.state v \<notin> rerequest_states) \<and>
    \<not> (rl = THREE_LGTM \<and> 1 \<le> lgtm_count votes) \<longrightarrow>
      calc_gate_state votes rl = PREPARING) \<and>
   calc_gate_state [] rl = PREPARING \<and>
   (vote.state a = APPROVED \<and> vote.state b = APPROVED \<and> vote.state c = APPROVED \<longrightarrow>
      calc_gate_state [a, b] THREE_LGTM = REVIEW_REQUESTED \<and>
      calc_gate_state [a, b, c] THREE_LGTM = APPROVED)"
proof (intro conjI impI)
  assume a: "rl = THREE_LGTM \<and> 1 \<le> lgtm_count votes \<and> lgtm_count votes < 3 \<and>
    (\<forall>v\<in>set (counted votes). vote.state v \<notin> rerequest_states)"
  have h1: "\<not> na_self_case votes rl"
    using a by (simp add: na_self_case_def rules_distinct[symmetric])
  have h2: "\<not> quorum_met votes rl"
    using a by (simp add: quorum_met_def rules_distinct[symmetric])
  show "calc_gate_state votes rl = REVIEW_REQUESTED"
    using calc_no_rerequest[OF h1 h2] a by simp
next
  assume a: "\<not> na_self_case votes rl \<and> \<not> quorum_met votes rl \<and>
    (\<forall>v\<in>set (counted votes). vote.state v \<notin> rerequest_states) \<and>
    \<not> (rl = THREE_LGTM \<and> 1 \<le> lgtm_count votes)"
  then show "calc_gate_state votes rl = PREPARING"
    using calc_no_rerequest[of votes rl] by simp
next
  show "calc_gate_state [] rl = PREPARING"
    by (simp add: calc_gate_state_def counts_Nil sorted_desc_def)
next
  assume "vote.state a = APPROVED \<and> vote.state b = APPROVED \<and> vote.state c = APPROVED"
  then show "calc_gate_state [a, b] THREE_LGTM = REVIEW_REQUESTED"
    by (simp add: calc_gate_state_def counts_Cons counts_Nil sorted_desc_def rerequest_states_def
          rules_distinct[symmetric])
next
  assume "vote.state a = APPROVED \<and> vote.state b = APPROVED \<and> vote.state c = APPROVED"
  then show "calc_gate_state [a, b, c] THREE_LGTM = APPROVED"
    by (simp add: calc_gate_state_def counts_Cons counts_Nil rules_distinct[symmetric])
qed

theorem partial_lgtm_and_preparing_witness:
  "lgtm_count [vote_at APPROVED 1 ''a'', vote_at NA_VERIFIED 2 ''b'', vote_at NA 3 ''c''] = 2 \<and>
   calc_gate_state [vote_at APPROVED 1 ''a'', vote_at NA_VERIFIED 2 ''b'', vote_at NA 3 ''c'']
     THREE_LGTM = REVIEW_REQUESTED \<and>
   \<not> na_self_case [vote_at NA_VERIFIED 1 ''a'', vote_at NO_RESPONSE 2 ''b''] ONE_LGTM \<and>
   \<not> quorum_met [vote_at NA_VERIFIED 1 ''a'', vote_at NO_RESPONSE 2 ''b''] ONE_LGTM \<and>
   calc_gate_state [vote_at NA_VERIFIED 1 ''a'', vote_at NO_RESPONSE 2 ''b''] ONE_LGTM = PREPARING \<and>
   calc_gate_state [vote_at APPROVED 1 ''a'', vote_at APPROVED 2 ''b''] THREE_LGTM = REVIEW_REQUESTED \<and>
   calc_gate_state [vote_at APPROVED 1 ''a'', vote_at APPROVED 2 ''b'', vote_at APPROVED 3 ''c'']
     THREE_LGTM = APPROVED"
proof -
  let ?vs = "[vote_at APPROVED 1 ''a'', vote_at NA_VERIFIED 2 ''b'', vote_at NA 3 ''c'']"
  let ?ws = "[vote_at NA_VERIFIED 1 ''a'', vote_at NO_RESPONSE 2 ''b'']"
  have l: "lgtm_count ?vs = 2"
    by (simp add: lgtm_count_def counted_def vote_at_simps counts_Cons counts_Nil)
  have n: "\<forall>v\<in>set (counted ?vs). vote.state v \<notin> rerequest_states"
    by (simp add: counted_def vote_at_simps rerequest_states_def)
  have h1: "\<not> na_self_case ?ws ONE_LGTM"
    by (simp add: na_self_case_def counted_def vote_at_simps counts_Cons counts_Nil)
  have h2: "\<not> quorum_met ?ws ONE_LGTM"
    by (simp add: quorum_met_def lgtm_count_def counted_def vote_at_simps counts_Cons counts_Nil
          rules_distinct)
  have h3: "\<forall>v\<in>set (counted ?ws). vote.state v \<notin> rerequest_states"
    by (simp add: counted_def vote_at_simps rerequest_states_def)
  show ?thesis
    using partial_lgtm_and_preparing[of THREE_LGTM ?vs "vote_at APPROVED 1 ''a''"
        "vote_at APPROVED 2 ''b''" "vote_at APPROVED 3 ''c''"]
      partial_lgtm_and_preparing[of ONE_LGTM ?ws] l n h1 h2 h3
    by (simp add: vote_at_simps rules_distinct)
qed

section \<open>Properties of vote submission\<close>

lemma fold_max_ge: "(m::nat) \<le> fold max xs m"
  by (induction xs arbitrary: m) (auto intro: order_trans[OF max.cobounded2])

lemma fold_max_mem: "(x::nat) \<in> set xs \<Longrightarrow> x \<le> fold max xs m"
proof (induction xs arbitrary: m)
  case Nil
  then show ?case by simp
next
  case (Cons a xs)
  show ?case
  proof (cases "x = a")
    case True
    have "max a m \<le> fold max xs (max a m)" by (rule fold_max_ge)
    with True show ?thesis by simp
  next
    case False
    with Cons show ?thesis by simp
  qed
qed

lemma fresh_key_notin: "fresh_key rows \<notin> fst ` set rows"
proof
  assume "fresh_key rows \<in> fst ` set rows"
  then have "fresh_key rows \<in> set (map fst rows)" by simp
  then have "fresh_key rows \<le> fold max (map fst rows) 0" by (rule fold_max_mem)
  then show False by (simp add: fresh_key_def)
qed

lemma delete_row_absent: "k \<notin> fst ` set rows \<Longrightarrow> delete_row k rows = rows"
  by (induction rows) (auto simp: delete_row_def)

lemma delete_row_fresh: "delete_row (fresh_key rows) (rows @ [(fresh_key rows, r)]) = rows"
  using fresh_key_notin[of rows] by (simp add: delete_row_def delete_row_absent[unfolded delete_row_def])

lemma finish_vote_backs_out:
  assumes "\<exists>kv\<in>set (get_votes s None (Some gk) None).
             vote.set_by (snd kv) = who \<and> vote.set_on (snd kv) < now"
  shows "finish_vote record_vote s (Some (gk, g)) (Some nk) now who =
           (s\<lparr>vote_rows := delete_row nk (vote_rows s)\<rparr>, None)"
proof -
  have "filter (\<lambda>(k, v). vote.set_by v = who \<and> vote.set_on v < now)
          (get_votes s None (Some gk) None) \<noteq> []"
    using assms by (auto simp: filter_empty_conv)
  then show ?thesis
    by (simp add: finish_vote_def Let_def)
qed

lemma get_votes_append:
  "get_votes (s\<lparr>vote_rows := vote_rows s @ rows\<rparr>) fid gid who =
   get_votes s fid gid who @ get_votes (s\<lparr>vote_rows := rows\<rparr>) fid gid who"
  by (simp add: get_votes_def)


lemma set_vote_unfold:
  assumes "resolve_gate s fid gtype gid = Some (gate_ent, gid', gtype')"
    and "is_valid_state new_state"
  shows "set_vote record_vote s now fid gtype new_state who gid =
     (Inr (snd (finish_vote record_vote
                  (fst (write_vote s (get_votes s (Some fid) gid' (Some who)) now fid gid' gtype'
                          new_state who))
                  gate_ent
                  (snd (write_vote s (get_votes s (Some fid) gid' (Some who)) now fid gid' gtype'
                          new_state who))
                  now who)),
      fst (finish_vote record_vote
                  (fst (write_vote s (get_votes s (Some fid) gid' (Some who)) now fid gid' gtype'
                          new_state who))
                  gate_ent
                  (snd (write_vote s (get_votes s (Some fid) gid' (Some who)) now fid gid' gtype'
                          new_state who))
                  now who))"
  using assms by (simp add: set_vote_def Let_def split_beta)

lemma resolve_gate_None_iff:
  "resolve_gate s fid gtype gid = None \<longleftrightarrow>
     gid = None \<and> (\<exists>gt. gtype = Some gt \<and> get_gate_by_type s fid gt = None)"
  by (auto simp: resolve_gate_def split: option.splits)

lemma set_vote_invalid:
  assumes "\<not> is_valid_state new_state"
  shows "set_vote record_vote s now fid gtype new_state who gid =
     (if resolve_gate s fid gtype gid = None then Inr None else Inl ValueError, s)"
  using assms by (auto simp: set_vote_def split: option.splits)

lemma finish_vote_proceeds:
  assumes "\<forall>kv\<in>set (get_votes s None (Some gk) None).
             vote.set_by (snd kv) = who \<longrightarrow> \<not> vote.set_on (snd kv) < now"
  shows "finish_vote record_vote s (Some (gk, g)) new_vote now who =
     (let vs = map snd (get_votes s None (Some gk) None);
          u = update_gate_approval_state g vs;
          r = record_vote (fst u) vs (gate.state g)
      in if snd u \<or> snd r then
           (s\<lparr>gate_rows := put_row gk (fst r) (gate_rows s)\<rparr>, Some (gate.state (fst r)))
         else (s, None))"
proof -
  have "filter (\<lambda>(k, v). vote.set_by v = who \<and> vote.set_on v < now)
          (get_votes s None (Some gk) None) = []"
    using assms by (auto simp: filter_empty_conv)
  then show ?thesis
    by (simp add: finish_vote_def Let_def split_beta)
qed

lemma finish_vote_keeps_rows:
  assumes "\<forall>kv\<in>set (get_votes s None (Some gk) None).
             vote.set_by (snd kv) = who \<longrightarrow> \<not> vote.set_on (snd kv) < now"
  shows "vote_rows (fst (finish_vote record_vote s (Some (gk, g)) new_vote now who)) = vote_rows s"
  by (simp add: finish_vote_proceeds[OF assms] Let_def)

lemma set_vote_interleaved_unfold:
  assumes "resolve_gate s fid gtype gid = Some (gate_ent, gid', gtype')"
    and "is_valid_state new_state"
    and "get_votes s (Some fid) gid' (Some who) = []"
  shows "set_vote_interleaved record_vote other s now fid gtype new_state who gid =
     (Inr (snd (finish_vote record_vote
                  (other s\<lparr>vote_rows := vote_rows (other s) @
                     [(fresh_key (vote_rows (other s)),
                       \<lparr>vote.feature_id = fid, gate_id = gid', gate_type = gtype',
                        state = new_state, set_on = now, set_by = who\<rparr>)]\<rparr>)
                  gate_ent (Some (fresh_key (vote_rows (other s)))) now who)),
      fst (finish_vote record_vote
                  (other s\<lparr>vote_rows := vote_rows (other s) @
                     [(fresh_key (vote_rows (other s)),
                       \<lparr>vote.feature_id = fid, gate_id = gid', gate_type = gtype',
                        state = new_state, set_on = now, set_by = who\<rparr>)]\<rparr>)
                  gate_ent (Some (fresh_key (vote_rows (other s)))) now who))"
  using assms by (simp add: set_vote_interleaved_def write_vote_def Let_def split_beta)

lemma set_vote_interleaved_id:
  "set_vote_interleaved record_vote (\<lambda>s. s) s now fid gtype new_state who gid =
   set_vote record_vote s now fid gtype new_state who gid"
  by (simp add: set_vote_interleaved_def set_vote_def)

lemma get_votes_new_row:
  "set (get_votes (s\<lparr>vote_rows := vote_rows s @ [(k, v)]\<rparr>) fid gid who) \<subseteq>
   insert (k, v) (set (get_votes s fid gid who))"
  by (auto simp: get_votes_def)


text \<open>
  C2, as the code has it. When the call has created a new Vote row and the votes reloaded
  for the gate hold a row of the same voter whose set_on is strictly earlier than the now
  the call observed, the new row is deleted and the call returns None; the gate is neither
  recomputed nor put, and the SLO recorder is not called. When the reloaded votes hold no
  such row, the new row is kept and the call goes on to recompute the gate, also when rows
  of the voter with the same or a later set_on are there. Both hold for the last block on
  any store, whatever other handlers wrote before the reload, and for a whole call with
  the steps of other handlers between its query and its put: with an earlier row of the
  voter among what they left, the call returns None and the store is as they left it;
  without one, the store has their rows and the new row. So the check does not by itself
  leave at most one vote per gate and voter.
\<close>

theorem lost_race_backs_out:
  "((\<exists>kv\<in>set (get_votes s None (Some gk) None).
        vote.set_by (snd kv) = who \<and> vote.set_on (snd kv) < now) \<longrightarrow>
      finish_vote record_vote s (Some (gk, g)) (Some nk) now who =
        (s\<lparr>vote_rows := delete_row nk (vote_rows s)\<rparr>, None)) \<and>
   ((\<forall>kv\<in>set (get_votes s None (Some gk) None).
        vote.set_by (snd kv) = who \<longrightarrow> \<not> vote.set_on (snd kv) < now) \<longrightarrow>
      vote_rows (fst (finish_vote record_vote s (Some (gk, g)) (Some nk) now who)) = vote_rows s \<and>
      finish_vote record_vote s (Some (gk, g)) (Some nk) now who =
        (let vs = map snd (get_votes s None (Some gk) None);
             u = update_gate_approval_state g vs;
             r = record_vote (fst u) vs (gate.state g)
         in if snd u \<or> snd r then
              (s\<lparr>gate_rows := put_row gk (fst r) (gate_rows s)\<rparr>, Some (gate.state (fst r)))
            else (s, None))) \<and>
   (resolve_gate s fid gtype gid = Some (Some (gk, g), gid', gtype') \<and>
    is_valid_state new_state \<and>
    get_votes s (Some fid) gid' (Some who) = [] \<and>
    (\<exists>kv\<in>set (get_votes s None (Some gk) None).
        vote.set_by (snd kv) = who \<and> vote.set_on (snd kv) < now) \<longrightarrow>
      set_vote record_vote s now fid gtype new_state who gid = (Inr None, s)) \<and>
   (resolve_gate s fid gtype gid = Some (Some (gk, g), gid', gtype') \<and>
    is_valid_state new_state \<and>
    get_votes s (Some fid) gid' (Some who) = [] \<and>
    (\<exists>kv\<in>set (get_votes (other s) None (Some gk) None).
        vote.set_by (snd kv) = who \<and> vote.set_on (snd kv) < now) \<longrightarrow>
      set_vote_interleaved record_vote other s now fid gtype new_state who gid =
        (Inr None, other s)) \<and>
   (resolve_gate s fid gtype gid = Some (Some (gk, g), gid', gtype') \<and>
    is_valid_state new_state \<and>
    get_votes s (Some fid) gid' (Some who) = [] \<and>
    (\<forall>kv\<in>set (get_votes (other s) None (Some gk) None).
        vote.set_by (snd kv) = who \<longrightarrow> \<not> vote.set_on (snd kv) < now) \<longrightarrow>
      vote_rows (snd (set_vote_interleaved record_vote other s now fid gtype new_state who gid)) =
        vote_rows (other s) @
          [(fresh_key (vote_rows (other s)),
            \<lparr>vote.feature_id = fid, gate_id = gid', gate_type = gtype',
             state = new_state, set_on = now, set_by = who\<rparr>)])"
proof -
  let ?v = "\<lparr>vote.feature_id = fid, gate_id = gid', gate_type = gtype',
              state = new_state, set_on = now, set_by = who\<rparr>"
  have evict: "set_vote_interleaved record_vote f s now fid gtype new_state who gid =
        (Inr None, f s)"
    if a: "resolve_gate s fid gtype gid = Some (Some (gk, g), gid', gtype') \<and>
      is_valid_state new_state \<and>
      get_votes s (Some fid) gid' (Some who) = [] \<and>
      (\<exists>kv\<in>set (get_votes (f s) None (Some gk) None).
          vote.set_by (snd kv) = who \<and> vote.set_on (snd kv) < now)"
    for f
  proof -
    let ?k = "fresh_key (vote_rows (f s))"
    let ?s1 = "f s\<lparr>vote_rows := vote_rows (f s) @ [(?k, ?v)]\<rparr>"
    from a have r: "resolve_gate s fid gtype gid = Some (Some (gk, g), gid', gtype')"
      and v: "is_valid_state new_state"
      and e: "get_votes s (Some fid) gid' (Some who) = []" by simp_all
    have "\<exists>kv\<in>set (get_votes ?s1 None (Some gk) None).
          vote.set_by (snd kv) = who \<and> vote.set_on (snd kv) < now"
      using a by (auto simp: get_votes_append)
    then have "finish_vote record_vote ?s1 (Some (gk, g)) (Some ?k) now who =
        (?s1\<lparr>vote_rows := delete_row ?k (vote_rows ?s1)\<rparr>, None)"
      by (rule finish_vote_backs_out)
    moreover have "?s1\<lparr>vote_rows := delete_row ?k (vote_rows ?s1)\<rparr> = f s"
      by (simp add: delete_row_fresh)
    ultimately have "finish_vote record_vote ?s1 (Some (gk, g)) (Some ?k) now who = (f s, None)"
      by simp
    then show ?thesis
      unfolding set_vote_interleaved_unfold[OF r v e] by simp
  qed
  have c1: "(\<exists>kv\<in>set (get_votes s None (Some gk) None).
        vote.set_by (snd kv) = who \<and> vote.set_on (snd kv) < now) \<longrightarrow>
      finish_vote record_vote s (Some (gk, g)) (Some nk) now who =
        (s\<lparr>vote_rows := delete_row nk (vote_rows s)\<rparr>, None)"
    using finish_vote_backs_out[of s gk who now record_vote g nk] by blast
  have c2: "(\<forall>kv\<in>set (get_votes s None (Some gk) None).
        vote.set_by (snd kv) = who \<longrightarrow> \<not> vote.set_on (snd kv) < now) \<longrightarrow>
      vote_rows (fst (finish_vote record_vote s (Some (gk, g)) (Some nk) now who)) = vote_rows s \<and>
      finish_vote record_vote s (Some (gk, g)) (Some nk) now who =
        (let vs = map snd (get_votes s None (Some gk) None);
             u = update_gate_approval_state g vs;
             r = record_vote (fst u) vs (gate.state g)
         in if snd u \<or> snd r then
              (s\<lparr>gate_rows := put_row gk (fst r) (gate_rows s)\<rparr>, Some (gate.state (fst r)))
            else (s, None))"
    using finish_vote_keeps_rows[of s gk who now record_vote g "Some nk"]
      finish_vote_proceeds[of s gk who now record_vote g "Some nk"] by blast
  have c3: "resolve_gate s fid gtype gid = Some (Some (gk, g), gid', gtype') \<and>
    is_valid_state new_state \<and>
    get_votes s (Some fid) gid' (Some who) = [] \<and>
    (\<exists>kv\<in>set (get_votes s None (Some gk) None).
        vote.set_by (snd kv) = who \<and> vote.set_on (snd kv) < now) \<longrightarrow>
      set_vote record_vote s now fid gtype new_state who gid = (Inr None, s)"
    using evict[of "\<lambda>s. s"] unfolding set_vote_interleaved_id by blast
  have c4: "resolve_gate s fid gtype gid = Some (Some (gk, g), gid', gtype') \<and>
    is_valid_state new_state \<and>
    get_votes s (Some fid) gid' (Some who) = [] \<and>
    (\<exists>kv\<in>set (get_votes (other s) None (Some gk) None).
        vote.set_by (snd kv) = who \<and> vote.set_on (snd kv) < now) \<longrightarrow>
      set_vote_interleaved record_vote other s now fid gtype new_state who gid =
        (Inr None, other s)"
    using evict[of other] by blast
  have c5: "resolve_gate s fid gtype gid = Some (Some (gk, g), gid', gtype') \<and>
    is_valid_state new_state \<and>
    get_votes s (Some fid) gid' (Some who) = [] \<and>
    (\<forall>kv\<in>set (get_votes (other s) None (Some gk) None).
        vote.set_by (snd kv) = who \<longrightarrow> \<not> vote.set_on (snd kv) < now) \<longrightarrow>
      vote_rows (snd (set_vote_interleaved record_vote other s now fid gtype new_state who gid)) =
        vote_rows (other s) @ [(fresh_key (vote_rows (other s)), ?v)]"
  proof
    assume a: "resolve_gate s fid gtype gid = Some (Some (gk, g), gid', gtype') \<and>
      is_valid_state new_state \<and>
      get_votes s (Some fid) gid' (Some who) = [] \<and>
      (\<forall>kv\<in>set (get_votes (other s) None (Some gk) None).
          vote.set_by (snd kv) = who \<longrightarrow> \<not> vote.set_on (snd kv) < now)"
    let ?k = "fresh_key (vote_rows (other s))"
    let ?s1 = "other s\<lparr>vote_rows := vote_rows (other s) @ [(?k, ?v)]\<rparr>"
    from a have r: "resolve_gate s fid gtype gid = Some (Some (gk, g), gid', gtype')"
      and v: "is_valid_state new_state"
      and e: "get_votes s (Some fid) gid' (Some who) = []" by simp_all
    have "\<forall>kv\<in>set (get_votes ?s1 None (Some gk) None).
          vote.set_by (snd kv) = who \<longrightarrow> \<not> vote.set_on (snd kv) < now"
    proof
      fix kv assume "kv \<in> set (get_votes ?s1 None (Some gk) None)"
      then have "kv = (?k, ?v) \<or> kv \<in> set (get_votes (other s) None (Some gk) None)"
        using get_votes_new_row[of "other s" ?k ?v None "Some gk" None] by auto
      then show "vote.set_by (snd kv) = who \<longrightarrow> \<not> vote.set_on (snd kv) < now"
      proof
        assume "kv = (?k, ?v)"
        then have "vote.set_on (snd kv) = now" by simp
        then show ?thesis by simp
      next
        assume "kv \<in> set (get_votes (other s) None (Some gk) None)"
        with a show ?thesis by blast
      qed
    qed
    then have "vote_rows (fst (finish_vote record_vote ?s1 (Some (gk, g)) (Some ?k) now who)) =
        vote_rows ?s1"
      by (rule finish_vote_keeps_rows)
    then show "vote_rows (snd (set_vote_interleaved record_vote other s now fid gtype new_state
        who gid)) = vote_rows (other s) @ [(?k, ?v)]"
      unfolding set_vote_interleaved_unfold[OF r v e] by simp
  qed
  from c1 c2 c3 c4 c5 show ?thesis by (intro conjI)
qed


theorem lost_race_backs_out_witness:
  "finish_vote slo_unchanged lost_race_store (Some (7, ship_gate)) (Some 2) 20 ''a@x.org'' =
     (\<lparr>gate_rows = [(7, ship_gate)],
       vote_rows =
        [(1, \<lparr>vote.feature_id = 1, gate_id = Some 7, gate_type = None, state = DENIED,
               set_on = 10, set_by = ''a@x.org''\<rparr>)]\<rparr>, None) \<and>
   vote_rows (fst (finish_vote slo_unchanged tied_race_store (Some (7, ship_gate)) (Some 2) 20
                     ''a@x.org'')) = vote_rows tied_race_store \<and>
   snd (finish_vote slo_unchanged tied_race_store (Some (7, ship_gate)) (Some 2) 20 ''a@x.org'') =
     Some DENIED \<and>
   get_votes stray_vote_store (Some 1) (Some 7) (Some ''a@x.org'') = [] \<and>
   set_vote slo_unchanged stray_vote_store 20 1 None APPROVED ''a@x.org'' (Some 7) =
     (Inr None, stray_vote_store) \<and>
   set_vote_interleaved slo_unchanged other_handler one_gate_store 30 1 None APPROVED ''a@x.org''
     (Some 7) = (Inr None, other_handler one_gate_store) \<and>
   vote_rows (other_handler one_gate_store) =
     [(1, \<lparr>vote.feature_id = 1, gate_id = Some 7, gate_type = None, state = DENIED,
            set_on = 20, set_by = ''a@x.org''\<rparr>)] \<and>
   vote_rows (snd (set_vote_interleaved slo_unchanged other_handler one_gate_store 20 1 None
                     APPROVED ''a@x.org'' (Some 7))) = vote_rows tied_race_store"
proof -
  have h1: "\<exists>kv\<in>set (get_votes lost_race_store None (Some 7) None).
        vote.set_by (snd kv) = ''a@x.org'' \<and> vote.set_on (snd kv) < 20"
    by (simp add: get_votes_def lost_race_store_def)
  have t1: "\<forall>kv\<in>set (get_votes tied_race_store None (Some 7) None).
        vote.set_by (snd kv) = ''a@x.org'' \<longrightarrow> \<not> vote.set_on (snd kv) < 20"
    by (simp add: get_votes_def tied_race_store_def)
  have h2: "resolve_gate stray_vote_store 1 None (Some 7) = Some (Some (7, ship_gate), Some 7, None)"
    by (simp add: resolve_gate_def Gate_get_by_id_def stray_vote_store_def)
  have h3: "is_valid_state APPROVED"
    by (simp add: is_valid_state_def)
  have h4: "get_votes stray_vote_store (Some 1) (Some 7) (Some ''a@x.org'') = []"
    by (simp add: get_votes_def stray_vote_store_def)
  have h5: "\<exists>kv\<in>set (get_votes stray_vote_store None (Some 7) None).
        vote.set_by (snd kv) = ''a@x.org'' \<and> vote.set_on (snd kv) < 20"
    by (simp add: get_votes_def stray_vote_store_def)
  have o: "other_handler one_gate_store =
     \<lparr>gate_rows = [(7, ship_gate\<lparr>gate.state := DENIED\<rparr>)],
      vote_rows =
        [(1, \<lparr>vote.feature_id = 1, gate_id = Some 7, gate_type = None, state = DENIED,
               set_on = 20, set_by = ''a@x.org''\<rparr>)]\<rparr>"
    by code_simp
  have g1: "resolve_gate one_gate_store 1 None (Some 7) = Some (Some (7, ship_gate), Some 7, None)"
    by (simp add: resolve_gate_def Gate_get_by_id_def one_gate_store_def)
  have g2: "get_votes one_gate_store (Some 1) (Some 7) (Some ''a@x.org'') = []"
    by (simp add: get_votes_def one_gate_store_def)
  have g3: "\<exists>kv\<in>set (get_votes (other_handler one_gate_store) None (Some 7) None).
        vote.set_by (snd kv) = ''a@x.org'' \<and> vote.set_on (snd kv) < 30"
    unfolding o by (simp add: get_votes_def)
  have g4: "\<forall>kv\<in>set (get_votes (other_handler one_gate_store) None (Some 7) None).
        vote.set_by (snd kv) = ''a@x.org'' \<longrightarrow> \<not> vote.set_on (snd kv) < 20"
    unfolding o by (simp add: get_votes_def)
  have k: "fresh_key (vote_rows (other_handler one_gate_store)) = 2"
    unfolding o by (simp add: fresh_key_def)
  have a: "finish_vote slo_unchanged lost_race_store (Some (7, ship_gate)) (Some 2) 20 ''a@x.org'' =
        (lost_race_store\<lparr>vote_rows := delete_row 2 (vote_rows lost_race_store)\<rparr>, None)"
    using lost_race_backs_out[where s = lost_race_store and gk = 7 and who = "''a@x.org''"
        and now = 20] h1 by blast
  have b: "vote_rows (fst (finish_vote slo_unchanged tied_race_store (Some (7, ship_gate)) (Some 2)
        20 ''a@x.org'')) = vote_rows tied_race_store"
    using lost_race_backs_out[where s = tied_race_store and gk = 7 and who = "''a@x.org''"
        and now = 20] t1 by blast
  have b': "snd (finish_vote slo_unchanged tied_race_store (Some (7, ship_gate)) (Some 2) 20
        ''a@x.org'') = Some DENIED"
    by code_simp
  have c: "set_vote slo_unchanged stray_vote_store 20 1 None APPROVED ''a@x.org'' (Some 7) =
     (Inr None, stray_vote_store)"
    using lost_race_backs_out[where s = stray_vote_store and gk = 7 and who = "''a@x.org''"
        and now = 20 and g = ship_gate and fid = 1 and gtype = None and gid = "Some 7"
        and gid' = "Some 7" and gtype' = None and new_state = APPROVED] h2 h3 h4 h5 by blast
  have d: "set_vote_interleaved slo_unchanged other_handler one_gate_store 30 1 None APPROVED
      ''a@x.org'' (Some 7) = (Inr None, other_handler one_gate_store)"
    using lost_race_backs_out[where s = one_gate_store and gk = 7 and who = "''a@x.org''"
        and now = 30 and g = ship_gate and fid = 1 and gtype = None and gid = "Some 7"
        and gid' = "Some 7" and gtype' = None and new_state = APPROVED
        and other = other_handler] g1 h3 g2 g3 by blast
  have e: "vote_rows (snd (set_vote_interleaved slo_unchanged other_handler one_gate_store 20 1
      None APPROVED ''a@x.org'' (Some 7))) =
      vote_rows (other_handler one_gate_store) @
        [(fresh_key (vote_rows (other_handler one_gate_store)),
          \<lparr>vote.feature_id = 1, gate_id = Some 7, gate_type = None,
           state = APPROVED, set_on = 20, set_by = ''a@x.org''\<rparr>)]"
    using lost_race_backs_out[where s = one_gate_store and gk = 7 and who = "''a@x.org''"
        and now = 20 and g = ship_gate and fid = 1 and gtype = None and gid = "Some 7"
        and gid' = "Some 7" and gtype' = None and new_state = APPROVED
        and other = other_handler] g1 h3 g2 g4 by blast
  have e': "vote_rows (snd (set_vote_interleaved slo_unchanged other_handler one_gate_store 20 1
      None APPROVED ''a@x.org'' (Some 7))) = vote_rows tied_race_store"
    unfolding e k unfolding o by (simp add: tied_race_store_def)
  show ?thesis
    using a b b' c d e' h4 by (simp add: lost_race_store_def delete_row_def o)
qed

text \<open>
  C2 as stated fails in its last part. A handler that observes the time 10 and finds no
  vote of the voter, then pauses while a second handler of the same voter observes the time
  20 and runs to its end, and then puts its own row: at its reload the rival row is later
  than its now, so nothing is deleted. Both calls return a gate state and two votes of the
  voter stay on the gate.
\<close>

theorem race_leaves_two_votes_counterexample:
  "fst (set_vote_interleaved slo_unchanged other_handler one_gate_store 10 1 None APPROVED
          ''a@x.org'' (Some 7)) = Inr (Some DENIED) \<and>
   map fst (get_votes
      (snd (set_vote_interleaved slo_unchanged other_handler one_gate_store 10 1 None APPROVED
              ''a@x.org'' (Some 7)))
      None (Some 7) (Some ''a@x.org'')) = [1, 2]"
  by code_simp


text \<open>
  The two paths of set_vote to a gate that does not exist. By feature id and gate type
  the call returns None and the store is as before. By an explicit gate id, with a valid
  state, the call returns None as well, but the store has one more vote row, or an
  existing row of the voter overwritten.
\<close>

lemma missing_gate_by_type_aborts:
  assumes "get_gate_by_type s fid gt = None"
  shows "set_vote record_vote s now fid (Some gt) new_state who None = (Inr None, s)"
  using assms by (simp add: set_vote_def resolve_gate_def)

lemma missing_gate_by_id_writes:
  assumes "Gate_get_by_id s (Some k) = None" and "is_valid_state new_state"
  shows "set_vote record_vote s now fid gtype new_state who (Some k) =
     (Inr None,
      fst (write_vote s (get_votes s (Some fid) (Some k) (Some who)) now fid (Some k) gtype
             new_state who))"
proof -
  have r: "resolve_gate s fid gtype (Some k) = Some (None, Some k, gtype)"
    using assms(1) by (simp add: resolve_gate_def split: option.splits)
  show ?thesis
    unfolding set_vote_unfold[OF r assms(2)] by (simp add: finish_vote_def)
qed

text \<open>
  C3 fails on the path by explicit gate id: for a gate id that names no gate, with a valid
  state, the call returns None but the Vote row has been put. The path by feature id and
  gate type returns before anything is written.
\<close>

theorem missing_gate_by_id_records_vote:
  "Gate_get_by_id empty_store (Some 99) = None \<and>
   set_vote slo_unchanged empty_store 10 1 None APPROVED ''a@x.org'' (Some 99) =
     (Inr None,
      \<lparr>gate_rows = [],
       vote_rows =
         [(1, \<lparr>vote.feature_id = 1, gate_id = Some 99, gate_type = None, state = APPROVED,
                set_on = 10, set_by = ''a@x.org''\<rparr>)]\<rparr>)"
  by code_simp

text \<open>
  C4, as the code has it. When new_state is not a defined vote state, nothing is
  persisted: the store after the call is the store before it. The call raises ValueError
  when a gate id is given, and when the gate is looked up by feature id and gate type and
  found; when that lookup finds no gate, the call returns None before new_state is
  checked.
\<close>

theorem invalid_state_persists_nothing:
  "\<not> is_valid_state new_state \<longrightarrow>
     snd (set_vote record_vote s now fid gtype new_state who gid) = s \<and>
     (gid \<noteq> None \<longrightarrow>
        fst (set_vote record_vote s now fid gtype new_state who gid) = Inl ValueError) \<and>
     (gid = None \<longrightarrow>
        (\<forall>gt. gtype = Some gt \<longrightarrow>
           fst (set_vote record_vote s now fid gtype new_state who gid) =
             (if get_gate_by_type s fid gt = None then Inr None else Inl ValueError)))"
  by (auto simp: set_vote_invalid resolve_gate_None_iff)

theorem invalid_state_persists_nothing_witness:
  "\<not> is_valid_state PREPARING \<and>
   set_vote slo_unchanged one_gate_store 10 1 None PREPARING ''a@x.org'' (Some 7) =
     (Inl ValueError, one_gate_store) \<and>
   set_vote slo_unchanged one_gate_store 10 1 (Some GATE_API_SHIP) PREPARING ''a@x.org'' None =
     (Inl ValueError, one_gate_store) \<and>
   set_vote slo_unchanged one_gate_store 10 1 (Some GATE_API_PLAN) PREPARING ''a@x.org'' None =
     (Inr None, one_gate_store)"
proof -
  have h: "\<not> is_valid_state PREPARING"
    by (simp add: is_valid_state_def)
  have g1: "get_gate_by_type one_gate_store 1 GATE_API_SHIP \<noteq> None"
    by (simp add: get_gate_by_type_def one_gate_store_def ship_gate_def)
  have g2: "get_gate_by_type one_gate_store 1 GATE_API_PLAN = None"
    by (simp add: get_gate_by_type_def one_gate_store_def ship_gate_def)
  show ?thesis
    using h g1 g2
      invalid_state_persists_nothing[of PREPARING slo_unchanged one_gate_store 10 1 None
        "''a@x.org''" "Some 7"]
      invalid_state_persists_nothing[of PREPARING slo_unchanged one_gate_store 10 1
        "Some GATE_API_SHIP" "''a@x.org''" None]
      invalid_state_persists_nothing[of PREPARING slo_unchanged one_gate_store 10 1
        "Some GATE_API_PLAN" "''a@x.org''" None]
    by (simp add: prod_eq_iff)
qed

text \<open>
  C4 as stated fails for a lookup by feature id and gate type that finds no gate: the call
  with an undefined state returns None and raises nothing.
\<close>

theorem invalid_state_missing_gate_counterexample:
  "\<not> is_valid_state (Other_state 99) \<and>
   fst (set_vote slo_unchanged empty_store 10 1 (Some GATE_API_SHIP) (Other_state 99)
          ''a@x.org'' None) = Inr None \<and>
   fst (set_vote slo_unchanged empty_store 10 1 (Some GATE_API_SHIP) (Other_state 99)
          ''a@x.org'' None) \<noteq> Inl ValueError"
  by code_simp

section \<open>Properties of reviewer auto-assignment\<close>

text \<open>
  Whenever the call gets as far as json.loads and the body does not parse, it raises
  UnboundLocalError; neither the gate object nor the store is changed.
\<close>

lemma parse_failure_raises:
  assumes "APPROVAL_FIELDS_BY_ID (gate.gate_type g) = Some afd"
    and "scan_other_gates afd gk
           (filter (\<lambda>(k, og). gate.feature_id og = gate.feature_id g) (gate_rows s)) = Inr None"
    and "gate_info.approvers afd = Str IN_NDB"
    and "gate_def.rotation_url (G (gate.gate_type g)) = Some u" and "u \<noteq> []"
    and "R u = Inr resp" and "response.status_code resp = 200"
    and "J (response.content resp) = None"
  shows "auto_assign_reviewer G R J s (gk, g) = (Inl UnboundLocalError, s)"
  using assms by (simp add: auto_assign_reviewer_def Let_def)

text \<open>
  C6 fails on the code: a Privacy gate with no other gate of its feature, a rotation URL,
  and a rotation endpoint that answers 200 with a body that is not JSON. The call raises
  UnboundLocalError to its caller; the gate stays unassigned.
\<close>

theorem malformed_rotation_json_raises:
  "toy_json_loads ''<html>oops</html>'' = None \<and>
   auto_assign_reviewer rotation_gate_def malformed_rotation toy_json_loads privacy_store
     (3, privacy_gate) = (Inl UnboundLocalError, privacy_store)"
  by code_simp

section \<open>Properties of the approver resolver\<close>

lemma fetch_owners_cache:
  "fetch_owners R B (w\<lparr>cache := c\<rparr>) u =
     (fst (fetch_owners R B w u), (snd (fetch_owners R B w u))\<lparr>cache := c\<rparr>)"
  by (simp add: fetch_owners_def Let_def add_owner_file_def split: option.splits sum.splits)


lemma rediscache_get_removed:
  "rediscache_get (w\<lparr>cache := (cache w)(key := None)\<rparr>) clock key = None"
  by (simp add: rediscache_get_def)

lemma get_approvers_hit:
  assumes "APPROVAL_FIELDS_BY_ID gt = Some afd"
    and "rediscache_get w clock (APPROVERS_CACHE_KEY, gt) = Some (x # xs)"
  shows "get_approvers G R B w clock gt = (Inr (x # xs), w)"
  using assms by (simp add: get_approvers_def Let_def)

text \<open>The call on a cache miss or on a cached value that is false.\<close>

lemma get_approvers_miss:
  assumes "APPROVAL_FIELDS_BY_ID gt = Some afd"
    and "\<not> truthy (rediscache_get w clock (APPROVERS_CACHE_KEY, gt))"
  shows "get_approvers G R B w clock gt =
     (case (if gate_info.approvers afd = Str IN_NDB then
              (Inr (gate_def.approvers (G gt)), w)
            else
              (case gate_info.approvers afd of
                 Str u \<Rightarrow> fetch_owners R B w u
               | Emails l \<Rightarrow> (Inr l, w))) of
        (Inl e, w') \<Rightarrow> (Inl e, w')
      | (Inr owners, w') \<Rightarrow>
          (Inr owners, rediscache_set w' clock (APPROVERS_CACHE_KEY, gt) owners CACHE_EXPIRATION))"
  using assms by (simp add: get_approvers_def Let_def)

lemma get_approvers_miss_outcome:
  assumes "APPROVAL_FIELDS_BY_ID gt = Some afd"
    and "\<not> truthy (rediscache_get w clock (APPROVERS_CACHE_KEY, gt))"
    and "\<not> truthy (rediscache_get (w\<lparr>cache := c\<rparr>) clock (APPROVERS_CACHE_KEY, gt))"
  shows "fst (get_approvers G R B (w\<lparr>cache := c\<rparr>) clock gt) = fst (get_approvers G R B w clock gt)"
    and "fetched (snd (get_approvers G R B (w\<lparr>cache := c\<rparr>) clock gt)) =
         fetched (snd (get_approvers G R B w clock gt))"
    and "owners_files (snd (get_approvers G R B (w\<lparr>cache := c\<rparr>) clock gt)) =
         owners_files (snd (get_approvers G R B w clock gt))"
  unfolding get_approvers_miss[OF assms(1,2)] get_approvers_miss[OF assms(1,3)]
  by (auto simp: fetch_owners_cache rediscache_set_def split: approvers.splits sum.splits prod.splits)


lemma get_approvers_miss_caches:
  assumes "APPROVAL_FIELDS_BY_ID gt = Some afd"
    and "\<not> truthy (rediscache_get w clock (APPROVERS_CACHE_KEY, gt))"
    and "fst (get_approvers G R B w clock gt) = Inr owners"
  shows "cache (snd (get_approvers G R B w clock gt)) (APPROVERS_CACHE_KEY, gt) =
           Some (owners, clock + CACHE_EXPIRATION)"
  using assms(3) unfolding get_approvers_miss[OF assms(1,2)]
  by (auto simp: rediscache_set_def split: approvers.splits sum.splits prod.splits if_splits)

lemmas catalog_defs =
  APPROVAL_FIELDS_BY_ID_def GateInfo_def
  PrototypeApproval_def ExperimentApproval_def ExtendExperimentApproval_def ShipApproval_def
  PlanApproval_def PrivacyOriginTrialApproval_def PrivacyShipApproval_def
  SecurityOriginTrialApproval_def SecurityShipApproval_def EnterpriseShipApproval_def
  EnterprisePlanApproval_def DebuggabilityOriginTrialApproval_def DebuggabilityShipApproval_def
  DebuggabilityPlanApproval_def TestingShipApproval_def TestingPlanApproval_def

lemma catalog_ship: "APPROVAL_FIELDS_BY_ID GATE_API_SHIP = Some ShipApproval"
  by (simp add: catalog_defs)

lemma catalog_testing: "APPROVAL_FIELDS_BY_ID GATE_TESTING_SHIP = Some TestingShipApproval"
  by (simp add: catalog_defs)

lemma ship_approvers: "gate_info.approvers ShipApproval = Str API_OWNERS_URL"
  by (simp add: ShipApproval_def GateInfo_def)

lemma testing_approvers: "gate_info.approvers TestingShipApproval = Emails testing_owners"
  by (simp add: TestingShipApproval_def GateInfo_def testing_owners_def TESTING_APPROVERS_def)

lemma url_not_marker: "API_OWNERS_URL \<noteq> IN_NDB"
  by (simp add: API_OWNERS_URL_def IN_NDB_def)

lemma decode_served_document: "decode_raw_owner_content plain_b64decode
    (''# API owners'' @ [CHR 0x0A] @ '' o@chromium.org '') = Inr [owner_email]"
  by code_simp

lemma length_testing_owners: "length testing_owners = 5"
  by (simp add: testing_owners_def TESTING_APPROVERS_def)

lemma empty_world_miss: "\<not> truthy (rediscache_get empty_world 0 (APPROVERS_CACHE_KEY, gt))"
  by (simp add: rediscache_get_def empty_world_def)

lemma first_down:
  "get_approvers rotation_gate_def owners_down plain_b64decode empty_world 0 GATE_API_SHIP =
     (Inr [],
      \<lparr>cache = [(APPROVERS_CACHE_KEY, GATE_API_SHIP) \<mapsto> ([], 3600)],
       owners_files = Map.empty, fetched = [API_OWNERS_URL]\<rparr>)"
  unfolding get_approvers_miss[OF catalog_ship empty_world_miss]
  by (simp add: ship_approvers url_not_marker fetch_owners_def
        owners_down_def empty_world_def rediscache_set_def CACHE_EXPIRATION_def)

lemma first_up:
  "get_approvers rotation_gate_def owners_up plain_b64decode empty_world 0 GATE_API_SHIP =
     (Inr [owner_email],
      \<lparr>cache = [(APPROVERS_CACHE_KEY, GATE_API_SHIP) \<mapsto> ([owner_email], 3600)],
       owners_files = [API_OWNERS_URL \<mapsto>
         \<lparr>raw_content = ''# API owners'' @ [CHR 0x0A] @ '' o@chromium.org '', fresh = True\<rparr>],
       fetched = [API_OWNERS_URL]\<rparr>)"
  unfolding get_approvers_miss[OF catalog_ship empty_world_miss]
  by (simp add: ship_approvers url_not_marker fetch_owners_def
        owners_up_def empty_world_def rediscache_set_def CACHE_EXPIRATION_def
        add_owner_file_def decode_served_document[simplified])

lemma first_testing:
  "get_approvers rotation_gate_def owners_down plain_b64decode empty_world 0 GATE_TESTING_SHIP =
     (Inr testing_owners,
      \<lparr>cache = [(APPROVERS_CACHE_KEY, GATE_TESTING_SHIP) \<mapsto> (testing_owners, 3600)],
       owners_files = Map.empty, fetched = []\<rparr>)"
  unfolding get_approvers_miss[OF catalog_testing empty_world_miss]
  by (simp add: testing_approvers url_not_marker
        empty_world_def rediscache_set_def CACHE_EXPIRATION_def)

lemma second_down_as_miss:
  "fetched (snd (get_approvers rotation_gate_def owners_down plain_b64decode
      (world_after_first_call\<lparr>cache :=
         (cache world_after_first_call)((APPROVERS_CACHE_KEY, GATE_API_SHIP) := None)\<rparr>)
      1 GATE_API_SHIP)) = [API_OWNERS_URL, API_OWNERS_URL]"
proof -
  let ?w0 = "world_after_first_call\<lparr>cache :=
         (cache world_after_first_call)((APPROVERS_CACHE_KEY, GATE_API_SHIP) := None)\<rparr>"
  have m: "\<not> truthy (rediscache_get ?w0 1 (APPROVERS_CACHE_KEY, GATE_API_SHIP))"
    by (simp add: rediscache_get_removed)
  show ?thesis
    unfolding get_approvers_miss[OF catalog_ship m]
    by (simp add: ship_approvers url_not_marker fetch_owners_def
        owners_down_def world_after_first_call_def first_down rediscache_set_def)
qed

text \<open>
  C10. For a gate type of the catalog. A non-empty approver list found in the cache within
  its TTL is returned as it is, and nothing else happens. An empty list found in the cache
  within its TTL is treated as no entry is: the call resolves the approvers from the source
  of the gate type and stores what it resolved, with the outcome, the GET requests and the
  stored OWNERS documents of the same call on a cache without the entry. Whatever list a
  call resolves is in the cache for the TTL afterwards. So a resolved non-empty list is
  what any call within the TTL returns, with no other effect, whatever the sources then
  hold; a resolved empty list is in the cache too, and the next call within the TTL resolves
  again, which with an OWNERS URL whose document is not stored sends a GET each time.
\<close>

theorem empty_approvers_not_memoized:
  "APPROVAL_FIELDS_BY_ID gt = Some afd \<longrightarrow>
     (rediscache_get w clock (APPROVERS_CACHE_KEY, gt) = Some (x # xs) \<longrightarrow>
        get_approvers G R B w clock gt = (Inr (x # xs), w)) \<and>
     (rediscache_get w clock (APPROVERS_CACHE_KEY, gt) = Some [] \<or>
      rediscache_get w clock (APPROVERS_CACHE_KEY, gt) = None \<longrightarrow>
        get_approvers G R B w clock gt =
          (case (if gate_info.approvers afd = Str IN_NDB then
                   (Inr (gate_def.approvers (G gt)), w)
                 else
                   (case gate_info.approvers afd of
                      Str u \<Rightarrow> fetch_owners R B w u
                    | Emails l \<Rightarrow> (Inr l, w))) of
             (Inl e, w') \<Rightarrow> (Inl e, w')
           | (Inr owners, w') \<Rightarrow>
               (Inr owners,
                rediscache_set w' clock (APPROVERS_CACHE_KEY, gt) owners CACHE_EXPIRATION))) \<and>
     (rediscache_get w clock (APPROVERS_CACHE_KEY, gt) = Some [] \<longrightarrow>
        fst (get_approvers G R B w clock gt) =
          fst (get_approvers G R B (w\<lparr>cache := (cache w)((APPROVERS_CACHE_KEY, gt) := None)\<rparr>)
                 clock gt) \<and>
        fetched (snd (get_approvers G R B w clock gt)) =
          fetched (snd (get_approvers G R B
                          (w\<lparr>cache := (cache w)((APPROVERS_CACHE_KEY, gt) := None)\<rparr>) clock gt)) \<and>
        owners_files (snd (get_approvers G R B w clock gt)) =
          owners_files (snd (get_approvers G R B
                          (w\<lparr>cache := (cache w)((APPROVERS_CACHE_KEY, gt) := None)\<rparr>) clock gt))) \<and>
     (\<not> truthy (rediscache_get w clock (APPROVERS_CACHE_KEY, gt)) \<and>
      fst (get_approvers G R B w clock gt) = Inr owners \<and>
      clock' < clock + CACHE_EXPIRATION \<longrightarrow>
        rediscache_get (snd (get_approvers G R B w clock gt)) clock' (APPROVERS_CACHE_KEY, gt) =
          Some owners) \<and>
     (\<not> truthy (rediscache_get w clock (APPROVERS_CACHE_KEY, gt)) \<and>
      fst (get_approvers G R B w clock gt) = Inr (x # xs) \<and>
      clock' < clock + CACHE_EXPIRATION \<longrightarrow>
        get_approvers G' R' B' (snd (get_approvers G R B w clock gt)) clock' gt =
          (Inr (x # xs), snd (get_approvers G R B w clock gt)))"
proof (intro impI conjI)
  assume afd: "APPROVAL_FIELDS_BY_ID gt = Some afd"
  let ?key = "(APPROVERS_CACHE_KEY, gt)"
  let ?w0 = "w\<lparr>cache := (cache w)(?key := None)\<rparr>"
  let ?w1 = "snd (get_approvers G R B w clock gt)"
  have stored: "rediscache_get ?w1 clock' ?key = Some os"
    if "\<not> truthy (rediscache_get w clock ?key)" and "fst (get_approvers G R B w clock gt) = Inr os"
      and "clock' < clock + CACHE_EXPIRATION" for os
    using get_approvers_miss_caches[OF afd that(1,2)] that(3)
    by (simp add: rediscache_get_def)
  {
    assume "rediscache_get w clock ?key = Some (x # xs)"
    with afd show "get_approvers G R B w clock gt = (Inr (x # xs), w)"
      by (rule get_approvers_hit)
  }
  {
    assume "rediscache_get w clock ?key = Some [] \<or> rediscache_get w clock ?key = None"
    then have m: "\<not> truthy (rediscache_get w clock ?key)" by auto
    show "get_approvers G R B w clock gt =
          (case (if gate_info.approvers afd = Str IN_NDB then
                   (Inr (gate_def.approvers (G gt)), w)
                 else
                   (case gate_info.approvers afd of
                      Str u \<Rightarrow> fetch_owners R B w u
                    | Emails l \<Rightarrow> (Inr l, w))) of
             (Inl e, w') \<Rightarrow> (Inl e, w')
           | (Inr owners, w') \<Rightarrow>
               (Inr owners, rediscache_set w' clock ?key owners CACHE_EXPIRATION))"
      by (rule get_approvers_miss[OF afd m])
  }
  {
    assume e: "rediscache_get w clock ?key = Some []"
    then have m: "\<not> truthy (rediscache_get w clock ?key)" by simp
    have m0: "\<not> truthy (rediscache_get ?w0 clock ?key)"
      by (simp add: rediscache_get_removed)
    from get_approvers_miss_outcome[OF afd m m0, of G R B]
    show "fst (get_approvers G R B w clock gt) = fst (get_approvers G R B ?w0 clock gt)"
      and "fetched (snd (get_approvers G R B w clock gt)) =
          fetched (snd (get_approvers G R B ?w0 clock gt))"
      and "owners_files (snd (get_approvers G R B w clock gt)) =
          owners_files (snd (get_approvers G R B ?w0 clock gt))"
      by simp_all
  }
  {
    assume "\<not> truthy (rediscache_get w clock ?key) \<and>
      fst (get_approvers G R B w clock gt) = Inr owners \<and> clock' < clock + CACHE_EXPIRATION"
    then show "rediscache_get ?w1 clock' ?key = Some owners"
      using stored by blast
  }
  {
    assume "\<not> truthy (rediscache_get w clock ?key) \<and>
      fst (get_approvers G R B w clock gt) = Inr (x # xs) \<and> clock' < clock + CACHE_EXPIRATION"
    then have "rediscache_get ?w1 clock' ?key = Some (x # xs)"
      using stored by blast
    with afd show "get_approvers G' R' B' ?w1 clock' gt = (Inr (x # xs), ?w1)"
      by (rule get_approvers_hit)
  }
qed

theorem empty_approvers_not_memoized_witness:
  "get_approvers rotation_gate_def owners_down plain_b64decode cached_world 10 GATE_API_SHIP =
     (Inr [owner_email], cached_world) \<and>
   fst (get_approvers rotation_gate_def owners_down plain_b64decode empty_world 0 GATE_API_SHIP) =
     Inr [] \<and>
   rediscache_get world_after_first_call 1 (APPROVERS_CACHE_KEY, GATE_API_SHIP) = Some [] \<and>
   fetched world_after_first_call = [API_OWNERS_URL] \<and>
   fetched (snd (get_approvers rotation_gate_def owners_down plain_b64decode
                   world_after_first_call 1 GATE_API_SHIP)) = [API_OWNERS_URL, API_OWNERS_URL] \<and>
   fst (get_approvers rotation_gate_def owners_up plain_b64decode empty_world 0 GATE_API_SHIP) =
     Inr [owner_email] \<and>
   rediscache_get world_after_fetch 3599 (APPROVERS_CACHE_KEY, GATE_API_SHIP) =
     Some [owner_email] \<and>
   fetched world_after_fetch = [API_OWNERS_URL] \<and>
   get_approvers rotation_gate_def owners_down plain_b64decode world_after_fetch 3599
     GATE_API_SHIP = (Inr [owner_email], world_after_fetch) \<and>
   rediscache_get
     (snd (get_approvers rotation_gate_def owners_down plain_b64decode empty_world 0
             GATE_TESTING_SHIP))
     1 (APPROVERS_CACHE_KEY, GATE_TESTING_SHIP) =
     Some testing_owners \<and>
   length testing_owners = 5"
proof -
  note down =
    empty_approvers_not_memoized[where afd = ShipApproval and gt = GATE_API_SHIP
      and w = empty_world and clock = 0 and G = rotation_gate_def and R = owners_down
      and B = plain_b64decode and clock' = 1 and owners = "[]" and x = owner_email
      and xs = "[]" and G' = rotation_gate_def and R' = owners_down and B' = plain_b64decode]
  note up =
    empty_approvers_not_memoized[where afd = ShipApproval and gt = GATE_API_SHIP
      and w = empty_world and clock = 0 and G = rotation_gate_def and R = owners_up
      and B = plain_b64decode and clock' = 3599 and owners = "[owner_email]"
      and x = owner_email and xs = "[]" and G' = rotation_gate_def and R' = owners_down
      and B' = plain_b64decode]
  note testing =
    empty_approvers_not_memoized[where afd = TestingShipApproval and gt = GATE_TESTING_SHIP
      and w = empty_world and clock = 0 and G = rotation_gate_def and R = owners_down
      and B = plain_b64decode and clock' = 1 and owners = testing_owners and x = owner_email
      and xs = "[]" and G' = rotation_gate_def and R' = owners_down and B' = plain_b64decode]
  note again =
    empty_approvers_not_memoized[where afd = ShipApproval and gt = GATE_API_SHIP
      and w = world_after_first_call and clock = 1 and G = rotation_gate_def
      and R = owners_down and B = plain_b64decode and x = owner_email and xs = "[]"
      and owners = "[]" and clock' = 1 and G' = rotation_gate_def and R' = owners_down
      and B' = plain_b64decode]
  note cached =
    empty_approvers_not_memoized[where afd = ShipApproval and gt = GATE_API_SHIP
      and w = cached_world and clock = 10 and x = owner_email and xs = "[]"
      and G = rotation_gate_def and R = owners_down and B = plain_b64decode
      and owners = "[]" and clock' = 1 and G' = rotation_gate_def and R' = owners_down
      and B' = plain_b64decode]
  have lt: "length testing_owners = 5"
    by (rule length_testing_owners)
  have c: "APPROVAL_FIELDS_BY_ID GATE_API_SHIP = Some ShipApproval"
    by (rule catalog_ship)
  have ct: "APPROVAL_FIELDS_BY_ID GATE_TESTING_SHIP = Some TestingShipApproval"
    by (rule catalog_testing)
  have h1: "rediscache_get cached_world 10 (APPROVERS_CACHE_KEY, GATE_API_SHIP) =
      Some [owner_email]"
    by (simp add: rediscache_get_def cached_world_def)
  have h2: "\<not> truthy (rediscache_get empty_world 0 (APPROVERS_CACHE_KEY, GATE_API_SHIP))"
    by (simp add: rediscache_get_def empty_world_def)
  have h2t: "\<not> truthy (rediscache_get empty_world 0 (APPROVERS_CACHE_KEY, GATE_TESTING_SHIP))"
    by (simp add: rediscache_get_def empty_world_def)
  have h3: "fst (get_approvers rotation_gate_def owners_down plain_b64decode empty_world 0
      GATE_API_SHIP) = Inr []"
    by (simp add: first_down)
  have h3u: "fst (get_approvers rotation_gate_def owners_up plain_b64decode empty_world 0
      GATE_API_SHIP) = Inr [owner_email]"
    by (simp add: first_up)
  have h3t: "fst (get_approvers rotation_gate_def owners_down plain_b64decode empty_world 0
      GATE_TESTING_SHIP) = Inr testing_owners"
    by (simp add: first_testing)
  have h4: "(1::int) < 0 + CACHE_EXPIRATION" and h4': "(3599::int) < 0 + CACHE_EXPIRATION"
    by (simp_all add: CACHE_EXPIRATION_def)
  have r: "rediscache_get world_after_first_call 1 (APPROVERS_CACHE_KEY, GATE_API_SHIP) = Some []"
    unfolding world_after_first_call_def
    using down[THEN mp, OF c, THEN conjunct2, THEN conjunct2, THEN conjunct2, THEN conjunct1]
      h2 h3 h4 by (rule mp[OF _ conjI[OF _ conjI]])
  have ru: "rediscache_get world_after_fetch 3599 (APPROVERS_CACHE_KEY, GATE_API_SHIP) =
      Some [owner_email]"
    unfolding world_after_fetch_def
    using up[THEN mp, OF c, THEN conjunct2, THEN conjunct2, THEN conjunct2, THEN conjunct1]
      h2 h3u h4' by (rule mp[OF _ conjI[OF _ conjI]])
  have rt: "rediscache_get
     (snd (get_approvers rotation_gate_def owners_down plain_b64decode empty_world 0
             GATE_TESTING_SHIP))
     1 (APPROVERS_CACHE_KEY, GATE_TESTING_SHIP) = Some testing_owners"
    using testing[THEN mp, OF ct, THEN conjunct2, THEN conjunct2, THEN conjunct2, THEN conjunct1]
      h2t h3t h4 by (rule mp[OF _ conjI[OF _ conjI]])
  have hu: "get_approvers rotation_gate_def owners_down plain_b64decode world_after_fetch 3599
     GATE_API_SHIP = (Inr [owner_email], world_after_fetch)"
    unfolding world_after_fetch_def
    using up[THEN mp, OF c, THEN conjunct2, THEN conjunct2, THEN conjunct2, THEN conjunct2]
      h2 h3u h4' by (rule mp[OF _ conjI[OF _ conjI]])
  have f1: "fetched world_after_first_call = [API_OWNERS_URL]"
    by (simp add: world_after_first_call_def first_down)
  have f1u: "fetched world_after_fetch = [API_OWNERS_URL]"
    by (simp add: world_after_fetch_def first_up)
  have f0: "fetched (snd (get_approvers rotation_gate_def owners_down plain_b64decode
      (world_after_first_call\<lparr>cache :=
         (cache world_after_first_call)((APPROVERS_CACHE_KEY, GATE_API_SHIP) := None)\<rparr>)
      1 GATE_API_SHIP)) = [API_OWNERS_URL, API_OWNERS_URL]"
    by (rule second_down_as_miss)
  have "fetched (snd (get_approvers rotation_gate_def owners_down plain_b64decode
                   world_after_first_call 1 GATE_API_SHIP)) =
        fetched (snd (get_approvers rotation_gate_def owners_down plain_b64decode
          (world_after_first_call\<lparr>cache :=
             (cache world_after_first_call)((APPROVERS_CACHE_KEY, GATE_API_SHIP) := None)\<rparr>)
          1 GATE_API_SHIP))"
    using again[THEN mp, OF c, THEN conjunct2, THEN conjunct2, THEN conjunct1, THEN mp, OF r]
    by (rule conjunct1[OF conjunct2])
  then have f2: "fetched (snd (get_approvers rotation_gate_def owners_down plain_b64decode
                   world_after_first_call 1 GATE_API_SHIP)) = [API_OWNERS_URL, API_OWNERS_URL]"
    by (simp only: f0)
  have hit: "get_approvers rotation_gate_def owners_down plain_b64decode cached_world 10
      GATE_API_SHIP = (Inr [owner_email], cached_world)"
    using cached[THEN mp, OF c, THEN conjunct1, THEN mp, OF h1] .
  from hit h3 r f1 f2 h3u ru f1u hu rt lt show ?thesis
    by (intro conjI)
qed

end
